theory Spec2Isabelle
  imports Complex_Main "HOL-Library.Sublist"
begin

section \<open>Python values, exceptions and the constants of review.py\<close>

text \<open>
  The pipeline of \<^verbatim>\<open>review.py\<close> moves Python values around: whatever
  \<^verbatim>\<open>response.json()\<close> decodes is indexed and returned without a type check, and the
  callers test \<^verbatim>\<open>isinstance(result, str)\<close>. The values are therefore modelled as the
  decoded JSON they are. A character of a \<open>string\<close> stands for one code point of a Python
  \<^verbatim>\<open>str\<close>. Logging is not modelled: it changes no value and no control flow, except for
  the two \<^verbatim>\<open>len(...)\<close> calls inside log messages, which can raise and are kept.
\<close>

datatype pyval =
    PNone
  | PBool bool
  | PInt int
  | PFloat real
  | PStr string
  | PList "pyval list"
  | PDict "(string \<times> pyval) list"

text \<open>
  The subclasses of \<^verbatim>\<open>Exception\<close> that the code raises or catches. \<open>HTTPError cls msg\<close>
  is any subclass of \<^verbatim>\<open>httpx.HTTPError\<close> other than the three named before it (for
  instance \<^verbatim>\<open>ReadError\<close>), with its class name; only \<^verbatim>\<open>HTTPStatusError\<close> has a
  \<^verbatim>\<open>response\<close> attribute. \<open>OtherException\<close> is any other subclass of
  \<^verbatim>\<open>Exception\<close>.
\<close>

datatype exn =
    TimeoutException string
  | ConnectError string
  | HTTPStatusError int string
  | HTTPError string string
  | JSONDecodeError string
  | KeyError string
  | TypeError string
  | AttributeError string
  | OtherException string

fun is_HTTPError :: "exn \<Rightarrow> bool" where
  "is_HTTPError (TimeoutException _) = True"
| "is_HTTPError (ConnectError _) = True"
| "is_HTTPError (HTTPStatusError _ _) = True"
| "is_HTTPError (HTTPError _ _) = True"
| "is_HTTPError _ = False"

definition quoted :: "string \<Rightarrow> string" where
  "quoted s = [CHR 0x27] @ s @ [CHR 0x27]"

text \<open>\<^verbatim>\<open>str(e)\<close>: the message; for a \<^verbatim>\<open>KeyError\<close> the quoted key.\<close>

fun str_exn :: "exn \<Rightarrow> string" where
  "str_exn (TimeoutException m) = m"
| "str_exn (ConnectError m) = m"
| "str_exn (HTTPStatusError _ m) = m"
| "str_exn (HTTPError _ m) = m"
| "str_exn (JSONDecodeError m) = m"
| "str_exn (KeyError k) = quoted k"
| "str_exn (TypeError m) = m"
| "str_exn (AttributeError m) = m"
| "str_exn (OtherException m) = m"

text \<open>\<^verbatim>\<open>str(n)\<close> for a Python int, as the f-strings format chunk numbers.\<close>

fun str_nat :: "nat \<Rightarrow> string" where
  "str_nat n =
     (if n < 10 then [char_of (48 + n)]
      else str_nat (n div 10) @ [char_of (48 + n mod 10)])"

definition str_int :: "int \<Rightarrow> string" where
  "str_int i = (if i < 0 then CHR ''-'' # str_nat (nat (- i)) else str_nat (nat i))"

definition OLLAMA_MODEL :: string where
  "OLLAMA_MODEL = ''gemma3:27b-16k''"

definition CHUNK_SIZE :: nat where
  "CHUNK_SIZE = 40000"

definition CHUNK_OVERLAP :: nat where
  "CHUNK_OVERLAP = 100"

definition MAX_RETRIES :: int where
  "MAX_RETRIES = 2"

definition RETRY_BACKOFF_BASE :: int where
  "RETRY_BACKOFF_BASE = 5"

text \<open>\<^verbatim>\<open>v[key]\<close> with a string key, \<^verbatim>\<open>len(v)\<close> and the truth value of \<^verbatim>\<open>v\<close>.\<close>

fun type_name :: "pyval \<Rightarrow> string" where
  "type_name PNone = ''NoneType''"
| "type_name (PBool _) = ''bool''"
| "type_name (PInt _) = ''int''"
| "type_name (PFloat _) = ''float''"
| "type_name (PStr _) = ''str''"
| "type_name (PList _) = ''list''"
| "type_name (PDict _) = ''dict''"

fun getitem :: "pyval \<Rightarrow> string \<Rightarrow> exn + pyval" where
  "getitem (PDict kvs) k = (case map_of kvs k of None \<Rightarrow> Inl (KeyError k) | Some v \<Rightarrow> Inr v)"
| "getitem (PList _) k = Inl (TypeError ''list indices must be integers or slices, not str'')"
| "getitem (PStr _) k = Inl (TypeError (''string indices must be integers, not '' @ quoted ''str''))"
| "getitem v k = Inl (TypeError (quoted (type_name v) @ '' object is not subscriptable''))"

fun py_len :: "pyval \<Rightarrow> exn + nat" where
  "py_len (PStr s) = Inr (length s)"
| "py_len (PList xs) = Inr (length xs)"
| "py_len (PDict kvs) = Inr (length kvs)"
| "py_len v = Inl (TypeError (''object of type '' @ quoted (type_name v) @ '' has no len()''))"

fun truthy :: "pyval \<Rightarrow> bool" where
  "truthy PNone = False"
| "truthy (PBool b) = b"
| "truthy (PInt i) = (i \<noteq> 0)"
| "truthy (PFloat r) = (r \<noteq> 0)"
| "truthy (PStr s) = (s \<noteq> [])"
| "truthy (PList xs) = (xs \<noteq> [])"
| "truthy (PDict kvs) = (kvs \<noteq> [])"

text \<open>\<^verbatim>\<open>isinstance(s, str) and s.startswith("Error")\<close>, the test of lines 129 and 218.\<close>

fun is_error_str :: "pyval \<Rightarrow> bool" where
  "is_error_str (PStr s) = prefix ''Error'' s"
| "is_error_str _ = False"

section \<open>The inference backend\<close>

text \<open>
  One request to the Ollama endpoint: the JSON payload posted, and what the block
  \<^verbatim>\<open>client.post(...); response.raise_for_status(); response.json()\<close> does with it: it
  raises, or it yields the decoded body.
\<close>

record payload =
  model :: string
  messages :: "(string \<times> string) list"
  stream :: bool

type_synonym http_outcome = "exn + pyval"

section \<open>summarize\_chunk\_wrapper (lines 322--383)\<close>

definition chunk_payload :: "string \<Rightarrow> payload" where
  "chunk_payload chunk =
     \<lparr>model = OLLAMA_MODEL,
      messages =
        [(''system'', ''Extract only technical details. No citations or references.''),
         (''user'', ''Extract technical content: '' @ chunk)],
      stream = False\<rparr>"

text \<open>The body of the inner \<^verbatim>\<open>try\<close>, up to \<^verbatim>\<open>return summary\<close>.\<close>

definition chunk_try_body :: "(payload \<Rightarrow> http_outcome) \<Rightarrow> string \<Rightarrow> exn + pyval" where
  "chunk_try_body post chunk =
     (case post (chunk_payload chunk) of
        Inl e \<Rightarrow> Inl e
      | Inr response_data \<Rightarrow>
          (case getitem response_data ''message'' of
             Inl e \<Rightarrow> Inl e
           | Inr message \<Rightarrow>
               (case getitem message ''content'' of
                  Inl e \<Rightarrow> Inl e
                | Inr summary \<Rightarrow>
                    (case py_len summary of
                       Inl e \<Rightarrow> Inl e
                     | Inr _ \<Rightarrow> Inr summary))))"

text \<open>
  The three \<^verbatim>\<open>except\<close> clauses of the inner \<^verbatim>\<open>try\<close>, in their order. The last one
  reads \<^verbatim>\<open>he.response.status_code\<close>, which raises \<^verbatim>\<open>AttributeError\<close> for an
  \<^verbatim>\<open>httpx.HTTPError\<close> that is not an \<^verbatim>\<open>HTTPStatusError\<close>. Any other exception is
  not handled here.
\<close>

fun chunk_handlers :: "int \<Rightarrow> exn \<Rightarrow> exn + pyval" where
  "chunk_handlers chunk_id (TimeoutException _) =
     Inr (PStr (''Error in chunk '' @ str_int chunk_id @
       '': Request timed out. Consider increasing the timeout or reducing chunk size.''))"
| "chunk_handlers chunk_id (ConnectError _) =
     Inr (PStr (''Error in chunk '' @ str_int chunk_id @
       '': Could not connect to Ollama API. Check if Ollama is running correctly.''))"
| "chunk_handlers chunk_id (HTTPStatusError status_code _) =
     Inr (PStr (''Error in chunk '' @ str_int chunk_id @
       '': HTTP error from Ollama API. Status code: '' @ str_int status_code))"
| "chunk_handlers chunk_id (HTTPError cls _) =
     Inl (AttributeError (quoted cls @ '' object has no attribute '' @ quoted ''response''))"
| "chunk_handlers chunk_id e = Inl e"

definition summarize_chunk_wrapper ::
    "(payload \<Rightarrow> http_outcome) \<Rightarrow> string \<Rightarrow> int \<Rightarrow> exn + pyval" where
  "summarize_chunk_wrapper post chunk chunk_id =
     (case (case chunk_try_body post chunk of
              Inl e \<Rightarrow> chunk_handlers chunk_id e
            | Inr summary \<Rightarrow> Inr summary) of
        Inl e \<Rightarrow>
          Inr (PStr (''Error processing chunk '' @ str_int chunk_id @ '': '' @ str_exn e))
      | Inr summary \<Rightarrow> Inr summary)"

section \<open>summarize\_chunk\_with\_retry (lines 115--166)\<close>

text \<open>
  What one run of the retry loop does besides returning: the number of calls of the wrapped
  operation and the arguments of \<^verbatim>\<open>asyncio.sleep\<close>, in order.
\<close>

record trace =
  calls :: nat
  sleeps :: "int list"

definition wait_time :: "int \<Rightarrow> int" where
  "wait_time retries = RETRY_BACKOFF_BASE * 2 ^ nat (retries - 1)"

text \<open>
  The \<^verbatim>\<open>while\<close> loop. The awaited operation is a parameter: \<open>wrapper n\<close> is what its
  call number \<open>n\<close> (counted from 0) does, a raised exception or a returned value.
\<close>

function retry_loop ::
    "(nat \<Rightarrow> exn + pyval) \<Rightarrow> int \<Rightarrow> int \<Rightarrow> int \<Rightarrow> trace \<Rightarrow> pyval \<times> trace" where
  "retry_loop wrapper chunk_id max_retries retries tr =
     (if retries \<le> max_retries then
        (case wrapper (calls tr) of
           Inr result \<Rightarrow>
             if is_error_str result then
               if retries + 1 \<le> max_retries then
                 retry_loop wrapper chunk_id max_retries (retries + 1)
                   \<lparr>calls = calls tr + 1, sleeps = sleeps tr @ [wait_time (retries + 1)]\<rparr>
               else (result, \<lparr>calls = calls tr + 1, sleeps = sleeps tr\<rparr>)
             else (result, \<lparr>calls = calls tr + 1, sleeps = sleeps tr\<rparr>)
         | Inl e \<Rightarrow>
             if retries + 1 \<le> max_retries then
               retry_loop wrapper chunk_id max_retries (retries + 1)
                 \<lparr>calls = calls tr + 1, sleeps = sleeps tr @ [wait_time (retries + 1)]\<rparr>
             else
               (PStr (''Error processing chunk '' @ str_int chunk_id @ '' after '' @
                  str_int (max_retries + 1) @ '' attempts: '' @ str_exn e),
                \<lparr>calls = calls tr + 1, sleeps = sleeps tr\<rparr>))
      else (PStr (''Error: Unexpected end of retry loop for chunk '' @ str_int chunk_id), tr))"
  by pat_completeness auto
termination
  by (relation "measure (\<lambda>(wrapper, chunk_id, max_retries, retries, tr).
        nat (max_retries + 1 - retries))") auto

declare retry_loop.simps [simp del]

definition summarize_chunk_with_retry ::
    "(nat \<Rightarrow> exn + pyval) \<Rightarrow> int \<Rightarrow> int \<Rightarrow> pyval \<times> trace" where
  "summarize_chunk_with_retry wrapper chunk_id max_retries =
     retry_loop wrapper chunk_id max_retries 0 \<lparr>calls = 0, sleeps = []\<rparr>"

text \<open>An attempt has failed when it raised or returned a string that starts with Error.\<close>

fun attempt_failed :: "exn + pyval \<Rightarrow> bool" where
  "attempt_failed (Inl e) = True"
| "attempt_failed (Inr v) = is_error_str v"

text \<open>What the loop returns for a last attempt that failed (lines 142 and 164).\<close>

fun last_failure :: "int \<Rightarrow> int \<Rightarrow> exn + pyval \<Rightarrow> pyval" where
  "last_failure chunk_id max_retries (Inr result) = result"
| "last_failure chunk_id max_retries (Inl e) =
     PStr (''Error processing chunk '' @ str_int chunk_id @ '' after '' @
       str_int (max_retries + 1) @ '' attempts: '' @ str_exn e)"

section \<open>generate\_final\_summary (lines 234--319)\<close>

definition final_system_prompt :: string where
  "final_system_prompt =
     ''You are a technical documentation writer. Focus ONLY on technical details, implementations, and results. DO NOT mention papers, citations, or authors.''"

definition final_user_prompt :: "string \<Rightarrow> string" where
  "final_user_prompt combined_chunk_summaries =
     ''Create a comprehensive technical document focusing ONLY on the implementation and results.\<newline>'' @
     ''            Structure the content into these sections:\<newline>'' @
     ''\<newline>'' @
     ''            1. System Architecture\<newline>'' @
     ''            2. Technical Implementation\<newline>'' @
     ''            3. Infrastructure & Setup\<newline>'' @
     ''            4. Performance Analysis\<newline>'' @
     ''            5. Optimization Techniques\<newline>'' @
     ''\<newline>'' @
     ''            CRITICAL INSTRUCTIONS:\<newline>'' @
     ''            - Focus ONLY on technical details and implementations\<newline>'' @
     ''            - Include specific numbers, metrics, and measurements\<newline>'' @
     ''            - Explain HOW things work\<newline>'' @
     ''            - DO NOT include any citations or references\<newline>'' @
     ''            - DO NOT mention other research or related work\<newline>'' @
     ''            - Some sections may contain error messages - please ignore these and work with available information\<newline>'' @
     ''\<newline>'' @
     ''            Content to organize:\<newline>'' @
     ''            '' @
     combined_chunk_summaries @
     ''\<newline>'' @
     ''            ''"

definition final_payload :: "string \<Rightarrow> payload" where
  "final_payload combined_chunk_summaries =
     \<lparr>model = OLLAMA_MODEL,
      messages =
        [(''system'', final_system_prompt),
         (''user'', final_user_prompt combined_chunk_summaries)],
      stream = False\<rparr>"

text \<open>
  What the final stage does besides returning: the payloads it posts and the arguments of
  \<^verbatim>\<open>asyncio.sleep\<close>, in order.
\<close>

record final_trace =
  posts :: "payload list"
  waits :: "int list"

text \<open>
  The \<^verbatim>\<open>while\<close> loop of lines 269--310. \<open>post n\<close> is what request number \<open>n\<close>
  (counted from 0) does with the payload. The loop ends in one of three ways: a
  \<^verbatim>\<open>return\<close> inside it (\<open>Inl\<close> of the returned string), the \<^verbatim>\<open>break\<close> after a
  decoded response, or its condition turning false; in the last two cases \<open>Inr\<close> carries
  the value of \<^verbatim>\<open>final_response\<close>, which is \<^verbatim>\<open>None\<close> unless a response was stored.
\<close>

function final_loop ::
    "(nat \<Rightarrow> payload \<Rightarrow> http_outcome) \<Rightarrow> payload \<Rightarrow> int \<Rightarrow> final_trace \<Rightarrow>
     (string + pyval) \<times> final_trace" where
  "final_loop post pl retry_count tr =
     (if retry_count \<le> MAX_RETRIES then
        (case post (length (posts tr)) pl of
           Inr final_response \<Rightarrow>
             (Inr final_response, \<lparr>posts = posts tr @ [pl], waits = waits tr\<rparr>)
         | Inl e \<Rightarrow>
             if is_HTTPError e then
               if retry_count + 1 \<le> MAX_RETRIES then
                 final_loop post pl (retry_count + 1)
                   \<lparr>posts = posts tr @ [pl],
                    waits = waits tr @ [10 * 2 ^ nat (retry_count + 1 - 1)]\<rparr>
               else
                 (Inl (''Failed to generate final summary after multiple attempts. '' @
                    ''Please check the logs for details.''),
                  \<lparr>posts = posts tr @ [pl], waits = waits tr\<rparr>)
             else
               (Inl (''Failed to generate final summary due to an unexpected error. '' @
                  ''Please check the logs for details.''),
                \<lparr>posts = posts tr @ [pl], waits = waits tr\<rparr>))
      else (Inr PNone, tr))"
  by pat_completeness auto
termination
  by (relation "measure (\<lambda>(post, pl, retry_count, tr). nat (MAX_RETRIES + 1 - retry_count))")
    auto

declare final_loop.simps [simp del]

text \<open>
  Lines 312--319, after the loop: the test of \<^verbatim>\<open>final_response\<close>, then
  \<^verbatim>\<open>final_response["message"]["content"]\<close>, read once for the \<^verbatim>\<open>len\<close> of the log
  message and once for the \<^verbatim>\<open>return\<close>. Nothing here is inside a \<^verbatim>\<open>try\<close>.
\<close>

definition final_content :: "pyval \<Rightarrow> exn + pyval" where
  "final_content final_response =
     (if \<not> truthy final_response then
        Inr (PStr ''Failed to generate final summary. Please check the logs for details.'')
      else
        (case getitem final_response ''message'' of
           Inl e \<Rightarrow> Inl e
         | Inr message \<Rightarrow>
             (case getitem message ''content'' of
                Inl e \<Rightarrow> Inl e
              | Inr content \<Rightarrow>
                  (case py_len content of
                     Inl e \<Rightarrow> Inl e
                   | Inr _ \<Rightarrow> Inr content))))"

definition generate_final_summary ::
    "(nat \<Rightarrow> payload \<Rightarrow> http_outcome) \<Rightarrow> string \<Rightarrow> (exn + pyval) \<times> final_trace" where
  "generate_final_summary post combined_chunk_summaries =
     (case final_loop post (final_payload combined_chunk_summaries) 0
             \<lparr>posts = [], waits = []\<rparr> of
        (Inl s, tr) \<Rightarrow> (Inr (PStr s), tr)
      | (Inr final_response, tr) \<Rightarrow> (final_content final_response, tr))"

section \<open>summarize\_text\_parallel (lines 169--231)\<close>

text \<open>
  What the function takes from outside the repository: the text splitter of langchain, the
  backend (what call number \<open>n\<close> of the task with index \<open>i\<close> gets for its payload, and what
  request number \<open>n\<close> of the final stage gets), the order in which the chunk tasks complete,
  and Python's \<^verbatim>\<open>str()\<close> on values that are not strings.
\<close>

record env =
  split_text :: "string \<Rightarrow> string list"
  chunk_post :: "nat \<Rightarrow> nat \<Rightarrow> payload \<Rightarrow> http_outcome"
  final_post :: "nat \<Rightarrow> payload \<Rightarrow> http_outcome"
  completion :: "nat list"
  py_str :: "pyval \<Rightarrow> string"

text \<open>
  One element of \<^verbatim>\<open>tasks\<close> (lines 193--196): the retry loop around the wrapper for the
  chunk with index \<open>i\<close>, numbered \<open>i + 1\<close>. The argument \<^verbatim>\<open>total_chunks\<close> only reaches
  log messages.
\<close>

definition chunk_task :: "env \<Rightarrow> nat \<Rightarrow> string \<Rightarrow> pyval \<times> trace" where
  "chunk_task E i chunk =
     summarize_chunk_with_retry
       (\<lambda>n. summarize_chunk_wrapper (chunk_post E i n) chunk (int i + 1))
       (int i + 1) MAX_RETRIES"

text \<open>
  \<^verbatim>\<open>asyncio.gather(*tasks, return_exceptions=True)\<close>: every task stores its result (the
  value it returned or the exception it raised) in the slot of its own index when it
  completes, in the order \<open>order\<close> of completion; the call returns the slots once all are
  filled and does not return (\<open>None\<close>) while one is empty. No \<^verbatim>\<open>Exception\<close> leaves the
  call, so the handler of lines 211--213 is never entered.
\<close>

definition gather :: "nat list \<Rightarrow> 'a list \<Rightarrow> 'a list option" where
  "gather order results =
     those (foldl (\<lambda>slots i. if i < length results then slots[i := Some (results ! i)] else slots)
              (replicate (length results) None) order)"

text \<open>The loop of lines 201--209 over the gathered results.\<close>

definition process_summaries :: "(exn + pyval) list \<Rightarrow> pyval list" where
  "process_summaries summaries =
     map (\<lambda>(i, result).
            case result of
              Inl e \<Rightarrow>
                PStr (''Error processing chunk '' @ str_int (int i + 1) @ '': '' @ str_exn e)
            | Inr v \<Rightarrow> v)
       (enumerate 0 summaries)"

definition dispatch :: "env \<Rightarrow> string list \<Rightarrow> pyval list option" where
  "dispatch E chunks =
     map_option process_summaries
       (gather (completion E)
          (map (\<lambda>(i, chunk). Inr (fst (chunk_task E i chunk))) (enumerate 0 chunks)))"

text \<open>\<^verbatim>\<open>sep.join(xs)\<close> and the formatting of a value inside an f-string.\<close>

fun join :: "string \<Rightarrow> string list \<Rightarrow> string" where
  "join sep [] = []"
| "join sep [x] = x"
| "join sep (x # y # ys) = x @ sep @ join sep (y # ys)"

fun py_format :: "(pyval \<Rightarrow> string) \<Rightarrow> pyval \<Rightarrow> string" where
  "py_format str_other (PStr s) = s"
| "py_format str_other v = str_other v"

definition section_text :: "(pyval \<Rightarrow> string) \<Rightarrow> nat \<Rightarrow> pyval \<Rightarrow> string" where
  "section_text str_other i summary =
     ''Section '' @ str_int (int i + 1) @ '':\<newline>'' @ py_format str_other summary"

definition combined_chunk_summaries :: "(pyval \<Rightarrow> string) \<Rightarrow> pyval list \<Rightarrow> string" where
  "combined_chunk_summaries str_other summaries =
     join ''\<newline>\<newline>''
       (map (\<lambda>(i, summary). section_text str_other i summary) (enumerate 0 summaries))"

text \<open>Lines 217--231: the filter, the short cut and the final stage.\<close>

definition no_summary :: string where
  "no_summary = ''No meaningful summary could be generated. All chunks failed processing.''"

definition aggregate :: "env \<Rightarrow> pyval list \<Rightarrow> (exn + pyval) \<times> final_trace" where
  "aggregate E summaries =
     (let successful_summaries = filter (\<lambda>s. \<not> is_error_str s) summaries in
      if successful_summaries = [] then (Inr (PStr no_summary), \<lparr>posts = [], waits = []\<rparr>)
      else generate_final_summary (final_post E)
             (combined_chunk_summaries (py_str E) summaries))"

text \<open>
  A run of the entry point: what it returns or raises, and the traces of the chunk tasks
  and of the final stage.
\<close>

record run =
  returned :: "exn + pyval"
  chunk_traces :: "trace list"
  final_stage :: final_trace

definition summarize_text_parallel :: "env \<Rightarrow> string \<Rightarrow> run option" where
  "summarize_text_parallel E text =
     (let chunks = split_text E text in
      case dispatch E chunks of
        None \<Rightarrow> None
      | Some summaries \<Rightarrow>
          (case aggregate E summaries of
             (r, ft) \<Rightarrow>
               Some \<lparr>returned = r,
                     chunk_traces =
                       map (\<lambda>(i, chunk). snd (chunk_task E i chunk)) (enumerate 0 chunks),
                     final_stage = ft\<rparr>))"

section \<open>The segmenter\<close>

text \<open>
  Modelled from the spec: the segmenter. The source only configures
  \<^verbatim>\<open>RecursiveCharacterTextSplitter\<close> of langchain (lines 174--179: the budget
  \<open>CHUNK_SIZE\<close>, the overlap \<open>CHUNK_OVERLAP\<close> and the list of separators) and calls
  its \<^verbatim>\<open>split_text\<close>; the splitter itself is not part of the repository. The spec
  (section 4.1) describes it: split on a priority list of separators (paragraph break, line
  break, sentence end plus space, space, empty string for single characters), choosing the
  first separator that yields pieces each within the budget; then merge the pieces back up
  to the budget, carrying a trailing overlap of \<open>overlapChars\<close> characters into the next
  chunk. Where the spec is silent the model takes the plainest reading: a separator stays
  at the head of the piece that follows it, so that no character of the text is lost, and
  the overlap is shortened when the whole overlap and the next piece would together exceed
  the budget.
\<close>

definition separators :: "string list" where
  "separators = [''\<newline>\<newline>'', ''\<newline>'', ''. '', '' '', []]"

text \<open>
  Splitting at the occurrences of a non-empty separator, from left to right and without
  overlaps: \<open>skip\<close> counts the characters of the separator just found that are still to
  be passed, \<open>acc\<close> is the piece being read.
\<close>

fun split_on :: "string \<Rightarrow> nat \<Rightarrow> string \<Rightarrow> string \<Rightarrow> string list" where
  "split_on sep skip acc [] = (if acc = [] then [] else [acc])"
| "split_on sep skip acc (c # cs) =
     (if skip = 0 \<and> prefix sep (c # cs) then
        (if acc = [] then [] else [acc]) @ split_on sep (length sep - 1) [c] cs
      else split_on sep (skip - 1) (acc @ [c]) cs)"

definition pieces :: "string \<Rightarrow> string \<Rightarrow> string list" where
  "pieces sep text = (if sep = [] then map (\<lambda>c. [c]) text else split_on sep 0 [] text)"

text \<open>
  The first separator of the list whose pieces all fit the budget; when none does, the
  text is left whole.
\<close>

fun choose_pieces :: "nat \<Rightarrow> string list \<Rightarrow> string \<Rightarrow> string list" where
  "choose_pieces maxChunkChars [] text = (if text = [] then [] else [text])"
| "choose_pieces maxChunkChars (sep # seps) text =
     (if list_all (\<lambda>p. length p \<le> maxChunkChars) (pieces sep text) then pieces sep text
      else choose_pieces maxChunkChars seps text)"

definition overlap_tail :: "nat \<Rightarrow> string \<Rightarrow> string" where
  "overlap_tail n s = drop (length s - n) s"

text \<open>
  Merging: \<open>cur\<close> is the chunk being filled. A piece that still fits is appended; otherwise
  the chunk is closed and the next one starts with the tail of the closed chunk and the
  piece.
\<close>

fun merge_pieces :: "nat \<Rightarrow> nat \<Rightarrow> string \<Rightarrow> string list \<Rightarrow> string list" where
  "merge_pieces maxChunkChars overlapChars cur [] = [cur]"
| "merge_pieces maxChunkChars overlapChars cur (p # ps) =
     (if length cur + length p \<le> maxChunkChars then
        merge_pieces maxChunkChars overlapChars (cur @ p) ps
      else
        cur # merge_pieces maxChunkChars overlapChars
                (overlap_tail (min overlapChars (maxChunkChars - length p)) cur @ p) ps)"

definition segment :: "string \<Rightarrow> nat \<Rightarrow> nat \<Rightarrow> string list" where
  "segment text maxChunkChars overlapChars =
     (case choose_pieces maxChunkChars separators text of
        [] \<Rightarrow> []
      | p # ps \<Rightarrow> merge_pieces maxChunkChars overlapChars p ps)"

section \<open>Sample operations and backends\<close>

text \<open>An operation that times out, then returns an error string, then succeeds.\<close>

fun flaky_op :: "nat \<Rightarrow> exn + pyval" where
  "flaky_op 0 = Inl (TimeoutException ''timed out'')"
| "flaky_op (Suc 0) = Inr (PStr ''Error in chunk 1: busy'')"
| "flaky_op (Suc (Suc n)) = Inr (PStr ''a summary'')"

text \<open>An operation that raises on every call.\<close>

definition failing_op :: "nat \<Rightarrow> exn + pyval" where
  "failing_op n = Inl (ConnectError ''down'')"

text \<open>A well-formed response body with the given content.\<close>

definition ok_body :: "pyval \<Rightarrow> pyval" where
  "ok_body content = PDict [(''message'', PDict [(''content'', content)])]"

text \<open>
  A sample environment: a stand-in splitter that cuts the text into two halves, a backend
  that times out twice for the first chunk and answers otherwise, and the second task
  completing before the first.
\<close>

definition halves :: "string \<Rightarrow> string list" where
  "halves text = [take (length text div 2) text, drop (length text div 2) text]"

definition sample_chunk_post :: "nat \<Rightarrow> nat \<Rightarrow> payload \<Rightarrow> http_outcome" where
  "sample_chunk_post i n pl =
     (if i = 0 \<and> n < 2 then Inl (TimeoutException ''slow'') else Inr (ok_body (PStr ''summary'')))"

definition sample_final_post :: "nat \<Rightarrow> payload \<Rightarrow> http_outcome" where
  "sample_final_post n pl = Inr (ok_body (PStr ''final document''))"

definition str_stub :: "pyval \<Rightarrow> string" where
  "str_stub v = ''<value>''"

definition sample_env :: env where
  "sample_env =
     \<lparr>split_text = halves, chunk_post = sample_chunk_post, final_post = sample_final_post,
      completion = [1, 0], py_str = str_stub\<rparr>"

text \<open>\<^verbatim>\<open>isinstance(v, str)\<close>, and the values \<^verbatim>\<open>len\<close> accepts besides strings.\<close>

fun is_str :: "pyval \<Rightarrow> bool" where
  "is_str (PStr _) = True"
| "is_str _ = False"

fun is_container :: "pyval \<Rightarrow> bool" where
  "is_container (PList _) = True"
| "is_container (PDict _) = True"
| "is_container _ = False"

text \<open>Sample backends for one request of a chunk.\<close>

definition timeout_post :: "payload \<Rightarrow> http_outcome" where
  "timeout_post pl = Inl (TimeoutException ''timed out'')"

definition summary_post :: "payload \<Rightarrow> http_outcome" where
  "summary_post pl = Inr (ok_body (PStr ''summary''))"

definition list_content_post :: "payload \<Rightarrow> http_outcome" where
  "list_content_post pl = Inr (ok_body (PList [PStr ''x'']))"

text \<open>
  Replies that decode but are malformed: a body without the key \<^verbatim>\<open>message\<close>, a message
  without the key \<^verbatim>\<open>content\<close>, and a content that has no length.
\<close>

definition keyless_post :: "payload \<Rightarrow> http_outcome" where
  "keyless_post pl = Inr (PDict [(''error'', PStr ''model not found'')])"

definition contentless_post :: "payload \<Rightarrow> http_outcome" where
  "contentless_post pl = Inr (PDict [(''message'', PDict [(''role'', PStr ''assistant'')])])"

definition number_content_post :: "payload \<Rightarrow> http_outcome" where
  "number_content_post pl = Inr (ok_body (PInt 3))"

text \<open>
  A final stage that answers with a decoded body without the key \<^verbatim>\<open>message\<close>, and one
  whose body cannot be decoded.
\<close>

definition keyless_final_post :: "nat \<Rightarrow> payload \<Rightarrow> http_outcome" where
  "keyless_final_post n pl = Inr (PDict [(''error'', PStr ''model not found'')])"

definition keyless_env :: env where
  "keyless_env =
     \<lparr>split_text = halves, chunk_post = sample_chunk_post, final_post = keyless_final_post,
      completion = [1, 0], py_str = str_stub\<rparr>"

definition decode_error_post :: "nat \<Rightarrow> payload \<Rightarrow> http_outcome" where
  "decode_error_post n pl = Inl (JSONDecodeError ''Expecting value'')"

definition decode_error_op :: "nat \<Rightarrow> exn + pyval" where
  "decode_error_op n = Inl (JSONDecodeError ''Expecting value'')"

text \<open>A backend whose summaries are well-formed and begin with the word Error.\<close>

definition error_titled_post :: "nat \<Rightarrow> nat \<Rightarrow> payload \<Rightarrow> http_outcome" where
  "error_titled_post i n pl = Inr (ok_body (PStr ''Error bounds of the estimator are derived.''))"

definition error_titled_env :: env where
  "error_titled_env =
     \<lparr>split_text = halves, chunk_post = error_titled_post, final_post = sample_final_post,
      completion = [0, 1], py_str = str_stub\<rparr>"

text \<open>An operation that returns an error string on every call, and a final stage that
  answers every request with the status 503.\<close>

definition soft_failing_op :: "nat \<Rightarrow> exn + pyval" where
  "soft_failing_op n = Inr (PStr ''Error in chunk 1: busy'')"

definition unavailable_post :: "nat \<Rightarrow> payload \<Rightarrow> http_outcome" where
  "unavailable_post n pl = Inl (HTTPStatusError 503 ''Service Unavailable'')"

text \<open>
  An environment in which every request succeeds at once; its splitter is the segmenter
  with a budget of 4 characters and an overlap of 1.
\<close>

definition steady_chunk_post :: "nat \<Rightarrow> nat \<Rightarrow> payload \<Rightarrow> http_outcome" where
  "steady_chunk_post i n pl = Inr (ok_body (PStr ''summary''))"

definition small_split :: "string \<Rightarrow> string list" where
  "small_split doc = segment doc 4 1"

definition steady_env :: env where
  "steady_env =
     \<lparr>split_text = small_split, chunk_post = steady_chunk_post, final_post = sample_final_post,
      completion = [2, 0, 1], py_str = str_stub\<rparr>"

section \<open>The retry loop of a chunk\<close>

lemma retry_loop_success:
  assumes "calls tr = j" "retries = int j" "j \<le> k" "int k \<le> max_retries"
    and "\<forall>n. j \<le> n \<and> n < k \<longrightarrow> attempt_failed (wrapper n)"
    and "wrapper k = Inr r" "\<not> is_error_str r"
  shows "retry_loop wrapper cid max_retries retries tr =
     (r, \<lparr>calls = k + 1, sleeps = sleeps tr @ map (\<lambda>n. wait_time (int n)) [j + 1..<k + 1]\<rparr>)"
  using assms
proof (induction "k - j" arbitrary: j retries tr)
  case 0
  then have "j = k" by simp
  with 0 show ?case by (simp add: retry_loop.simps)
next
  case (Suc d)
  then have jk: "j < k" by simp
  with Suc.prems have f: "attempt_failed (wrapper j)" by simp
  have le: "retries + 1 \<le> max_retries" using jk Suc.prems by simp
  let ?tr = "\<lparr>calls = calls tr + 1, sleeps = sleeps tr @ [wait_time (retries + 1)]\<rparr>"
  have step: "retry_loop wrapper cid max_retries retries tr =
      retry_loop wrapper cid max_retries (retries + 1) ?tr"
    using f le Suc.prems(1)
    by (cases "wrapper j") (simp_all add: retry_loop.simps)
  have "retry_loop wrapper cid max_retries (retries + 1) ?tr =
     (r, \<lparr>calls = k + 1, sleeps = sleeps ?tr @ map (\<lambda>n. wait_time (int n)) [Suc j + 1..<k + 1]\<rparr>)"
    using Suc.hyps(2) Suc.prems jk
    by (intro Suc.hyps(1)) auto
  moreover have "[j + 1..<k + 1] = (j + 1) # [Suc j + 1..<k + 1]"
    using jk by (simp add: upt_conv_Cons)
  ultimately show ?case using step Suc.prems(2) by (simp add: add.commute)
qed

lemma retry_loop_exhaust:
  assumes "calls tr = j" "retries = int j" "int j \<le> max_retries"
    and "\<forall>n. j \<le> n \<and> int n \<le> max_retries \<longrightarrow> attempt_failed (wrapper n)"
  shows "retry_loop wrapper cid max_retries retries tr =
     (last_failure cid max_retries (wrapper (nat max_retries)),
      \<lparr>calls = nat max_retries + 1,
       sleeps = sleeps tr @ map (\<lambda>n. wait_time (int n)) [j + 1..<nat max_retries + 1]\<rparr>)"
  using assms
proof (induction "nat max_retries - j" arbitrary: j retries tr)
  case 0
  then have eq: "nat max_retries = j" "max_retries = int j" by simp_all
  with 0 have f: "attempt_failed (wrapper j)" by simp
  show ?case using f 0 eq
    by (cases "wrapper j") (simp_all add: retry_loop.simps)
next
  case (Suc d)
  then have jk: "j < nat max_retries" by simp
  with Suc.prems have f: "attempt_failed (wrapper j)" by simp
  have le: "retries + 1 \<le> max_retries" using jk Suc.prems by simp
  let ?tr = "\<lparr>calls = calls tr + 1, sleeps = sleeps tr @ [wait_time (retries + 1)]\<rparr>"
  have step: "retry_loop wrapper cid max_retries retries tr =
      retry_loop wrapper cid max_retries (retries + 1) ?tr"
    using f le Suc.prems(1)
    by (cases "wrapper j") (simp_all add: retry_loop.simps)
  have "retry_loop wrapper cid max_retries (retries + 1) ?tr =
     (last_failure cid max_retries (wrapper (nat max_retries)),
      \<lparr>calls = nat max_retries + 1,
       sleeps = sleeps ?tr @ map (\<lambda>n. wait_time (int n)) [Suc j + 1..<nat max_retries + 1]\<rparr>)"
    using Suc.hyps(2) Suc.prems jk
    by (intro Suc.hyps(1)) auto
  moreover have "[j + 1..<nat max_retries + 1] = (j + 1) # [Suc j + 1..<nat max_retries + 1]"
    using jk by (simp add: upt_conv_Cons)
  ultimately show ?case using step Suc.prems(2) by (simp add: add.commute)
qed

lemma retry_success_trace:
  assumes "int k \<le> max_retries" "\<forall>n<k. attempt_failed (wrapper n)"
    and "wrapper k = Inr r" "\<not> is_error_str r"
  shows "summarize_chunk_with_retry wrapper cid max_retries =
     (r, \<lparr>calls = k + 1, sleeps = map (\<lambda>n. wait_time (int n)) [1..<k + 1]\<rparr>)"
  unfolding summarize_chunk_with_retry_def
  using retry_loop_success[of "\<lparr>calls = 0, sleeps = []\<rparr>" 0 0 k max_retries wrapper r cid] assms
  by simp

lemma retry_exhaust_trace:
  assumes "0 \<le> max_retries" "\<forall>n. int n \<le> max_retries \<longrightarrow> attempt_failed (wrapper n)"
  shows "summarize_chunk_with_retry wrapper cid max_retries =
     (last_failure cid max_retries (wrapper (nat max_retries)),
      \<lparr>calls = nat max_retries + 1,
       sleeps = map (\<lambda>n. wait_time (int n)) [1..<nat max_retries + 1]\<rparr>)"
  unfolding summarize_chunk_with_retry_def
  using retry_loop_exhaust[of "\<lparr>calls = 0, sleeps = []\<rparr>" 0 0 max_retries wrapper cid] assms
  by simp

text \<open>
  C1. An operation that fails \<open>k\<close> times (by raising or by returning a string that starts
  with Error) and then succeeds, under a retry budget of at least \<open>k\<close>, is called exactly
  \<open>k + 1\<close> times and its success is returned. An operation that fails on every attempt is
  called exactly \<open>max_retries + 1\<close> times and what is returned is its last failure: the
  error string of the last call, or a message built from the exception the last call raised.
\<close>

theorem retry_controller_attempts:
  "(int k \<le> max_retries \<and> (\<forall>n<k. attempt_failed (wrapper n)) \<and>
      wrapper k = Inr r \<and> \<not> is_error_str r \<longrightarrow>
      fst (summarize_chunk_with_retry wrapper cid max_retries) = r \<and>
      calls (snd (summarize_chunk_with_retry wrapper cid max_retries)) = k + 1) \<and>
   (0 \<le> max_retries \<and> (\<forall>n. int n \<le> max_retries \<longrightarrow> attempt_failed (wrapper n)) \<longrightarrow>
      fst (summarize_chunk_with_retry wrapper cid max_retries) =
        last_failure cid max_retries (wrapper (nat max_retries)) \<and>
      calls (snd (summarize_chunk_with_retry wrapper cid max_retries)) = nat max_retries + 1)"
proof (intro conjI impI)
  assume a: "int k \<le> max_retries \<and> (\<forall>n<k. attempt_failed (wrapper n)) \<and>
      wrapper k = Inr r \<and> \<not> is_error_str r"
  then have eq: "summarize_chunk_with_retry wrapper cid max_retries =
     (r, \<lparr>calls = k + 1, sleeps = map (\<lambda>n. wait_time (int n)) [1..<k + 1]\<rparr>)"
    by (intro retry_success_trace) auto
  show "fst (summarize_chunk_with_retry wrapper cid max_retries) = r"
    by (simp add: eq)
  show "calls (snd (summarize_chunk_with_retry wrapper cid max_retries)) = k + 1"
    by (simp add: eq)
next
  assume a: "0 \<le> max_retries \<and> (\<forall>n. int n \<le> max_retries \<longrightarrow> attempt_failed (wrapper n))"
  then have eq: "summarize_chunk_with_retry wrapper cid max_retries =
     (last_failure cid max_retries (wrapper (nat max_retries)),
      \<lparr>calls = nat max_retries + 1,
       sleeps = map (\<lambda>n. wait_time (int n)) [1..<nat max_retries + 1]\<rparr>)"
    by (intro retry_exhaust_trace) auto
  show "fst (summarize_chunk_with_retry wrapper cid max_retries) =
        last_failure cid max_retries (wrapper (nat max_retries))"
    by (simp add: eq)
  show "calls (snd (summarize_chunk_with_retry wrapper cid max_retries)) = nat max_retries + 1"
    by (simp add: eq)
qed

lemma flaky_op_facts:
  "\<forall>n<2. attempt_failed (flaky_op n)" "flaky_op 2 = Inr (PStr ''a summary'')"
  "\<not> is_error_str (PStr ''a summary'')"
  by (simp_all add: less_Suc_eq numeral_2_eq_2)

theorem retry_controller_attempts_witness:
  "attempt_failed (flaky_op 0) \<and> attempt_failed (flaky_op 1) \<and>
   flaky_op 2 = Inr (PStr ''a summary'') \<and> \<not> is_error_str (PStr ''a summary'') \<and>
   fst (summarize_chunk_with_retry flaky_op 1 2) = PStr ''a summary'' \<and>
   calls (snd (summarize_chunk_with_retry flaky_op 1 2)) = 3 \<and>
   attempt_failed (failing_op 0) \<and> attempt_failed (failing_op 1) \<and>
   attempt_failed (failing_op 2) \<and>
   fst (summarize_chunk_with_retry failing_op 1 2) =
     PStr ''Error processing chunk 1 after 3 attempts: down'' \<and>
   calls (snd (summarize_chunk_with_retry failing_op 1 2)) = 3"
proof -
  have f: "\<forall>n. int n \<le> 2 \<longrightarrow> attempt_failed (failing_op n)"
    by (simp add: failing_op_def)
  have s: "str_int 1 = ''1''" "str_int 3 = ''3''"
    by code_simp+
  from retry_controller_attempts[of 2 2 flaky_op "PStr ''a summary''" 1] flaky_op_facts
  have 1: "fst (summarize_chunk_with_retry flaky_op 1 2) = PStr ''a summary'' \<and>
   calls (snd (summarize_chunk_with_retry flaky_op 1 2)) = 3"
    by simp
  from retry_controller_attempts[of 0 2 failing_op PNone 1] f
  have 2: "fst (summarize_chunk_with_retry failing_op 1 2) =
     PStr ''Error processing chunk 1 after 3 attempts: down'' \<and>
   calls (snd (summarize_chunk_with_retry failing_op 1 2)) = 3"
    by (simp add: failing_op_def s)
  show ?thesis using 1 2 f flaky_op_facts by simp
qed

section \<open>Dispatch and aggregation\<close>

lemma those_map_Some: "those (map Some xs) = Some xs"
  by (induction xs) simp_all

lemma fill_length:
  "length (foldl (\<lambda>slots i. if i < n then slots[i := Some (rs ! i)] else slots) slots order) =
     length slots"
  by (induction order arbitrary: slots) simp_all

lemma fill_nth:
  "i < length slots \<Longrightarrow> length slots = n \<Longrightarrow>
   foldl (\<lambda>slots i. if i < n then slots[i := Some (rs ! i)] else slots) slots order ! i =
     (if i \<in> set order then Some (rs ! i) else slots ! i)"
proof (induction order arbitrary: slots)
  case Nil
  then show ?case by simp
next
  case (Cons j order)
  then show ?case by (auto simp: nth_list_update)
qed

lemma gather_complete:
  assumes "{0..<length rs} \<subseteq> set order"
  shows "gather order rs = Some rs"
proof -
  let ?f = "foldl (\<lambda>slots i. if i < length rs then slots[i := Some (rs ! i)] else slots)
              (replicate (length rs) None) order"
  have "?f = map Some rs"
  proof (rule nth_equalityI)
    show "length ?f = length (map Some rs)" by (simp add: fill_length)
  next
    fix i assume "i < length ?f"
    then have i: "i < length rs" by (simp add: fill_length)
    with assms have "i \<in> set order" by auto
    with i show "?f ! i = map Some rs ! i" by (simp add: fill_nth)
  qed
  then show ?thesis by (simp add: gather_def those_map_Some)
qed

lemma process_summaries_length: "length (process_summaries rs) = length rs"
  by (simp add: process_summaries_def)

lemma process_summaries_nth:
  "i < length rs \<Longrightarrow> process_summaries rs ! i =
     (case rs ! i of
        Inl e \<Rightarrow> PStr (''Error processing chunk '' @ str_int (int i + 1) @ '': '' @ str_exn e)
      | Inr v \<Rightarrow> v)"
  by (cases "rs ! i") (simp_all add: process_summaries_def nth_enumerate_eq)

lemma enumerate_map_upt: "map f (enumerate 0 xs) = map (\<lambda>i. f (i, xs ! i)) [0..<length xs]"
  by (rule nth_equalityI) (simp_all add: nth_enumerate_eq)

lemma dispatch_complete:
  assumes "{0..<length chunks} \<subseteq> set (completion E)"
  shows "dispatch E chunks = Some (map (\<lambda>i. fst (chunk_task E i (chunks ! i))) [0..<length chunks])"
proof -
  let ?rs = "map (\<lambda>(i, chunk). (Inr (fst (chunk_task E i chunk)) :: exn + pyval)) (enumerate 0 chunks)"
  have g: "gather (completion E) ?rs = Some ?rs"
    using assms by (intro gather_complete) simp
  have "process_summaries ?rs = map (\<lambda>i. fst (chunk_task E i (chunks ! i))) [0..<length chunks]"
    by (rule nth_equalityI) (simp_all add: process_summaries_length process_summaries_nth nth_enumerate_eq)
  with g show ?thesis by (simp add: dispatch_def)
qed

lemma combined_sections:
  "combined_chunk_summaries f outs =
     join ''\<newline>\<newline>'' (map (\<lambda>i. section_text f i (outs ! i)) [0..<length outs])"
  by (simp add: combined_chunk_summaries_def enumerate_map_upt)

text \<open>
  C2. For a text that the splitter cuts into \<open>N\<close> chunks, whatever the backend does and in
  whatever order the \<open>N\<close> tasks complete, the dispatch returns exactly \<open>N\<close> outcomes, the
  outcome at index \<open>i\<close> being the one of the task of chunk \<open>i\<close>, and the combined summary is
  the sections 1 to \<open>N\<close> in the order of the chunks.
\<close>

theorem dispatch_index_aligned:
  assumes "{0..<length (split_text E text)} \<subseteq> set (completion E)"
  shows "\<exists>outs. dispatch E (split_text E text) = Some outs \<and>
     length outs = length (split_text E text) \<and>
     (\<forall>i<length (split_text E text). outs ! i = fst (chunk_task E i (split_text E text ! i))) \<and>
     combined_chunk_summaries (py_str E) outs =
       join ''\<newline>\<newline>''
         (map (\<lambda>i. ''Section '' @ str_int (int i + 1) @ '':\<newline>'' @
                  py_format (py_str E) (outs ! i))
            [0..<length (split_text E text)])"
  using dispatch_complete[OF assms]
  by (simp add: combined_sections section_text_def)

lemma aggregate_all_errors:
  assumes "\<forall>v\<in>set summaries. is_error_str v"
  shows "aggregate E summaries = (Inr (PStr no_summary), \<lparr>posts = [], waits = []\<rparr>)"
proof -
  from assms have "filter (\<lambda>s. \<not> is_error_str s) summaries = []"
    by (simp add: filter_empty_conv)
  then show ?thesis by (simp add: aggregate_def)
qed

text \<open>
  C3. When every one of the \<open>N\<close> outcomes is a failure (a string that starts with Error),
  the aggregation returns the fixed sentence that no meaningful summary could be generated,
  and the final stage posts nothing to the backend.
\<close>

theorem all_failed_short_circuit:
  "(\<forall>i<length summaries. is_error_str (summaries ! i)) \<longrightarrow>
     aggregate E summaries = (Inr (PStr no_summary), \<lparr>posts = [], waits = []\<rparr>)"
proof
  assume "\<forall>i<length summaries. is_error_str (summaries ! i)"
  then have "\<forall>v\<in>set summaries. is_error_str v" by (auto simp: in_set_conv_nth)
  then show "aggregate E summaries = (Inr (PStr no_summary), \<lparr>posts = [], waits = []\<rparr>)"
    by (rule aggregate_all_errors)
qed

lemma final_loop_first:
  assumes "\<not> (\<exists>e. post 0 pl = Inl e \<and> is_HTTPError e)"
  shows "posts (snd (final_loop post pl 0 \<lparr>posts = [], waits = []\<rparr>)) = [pl]"
    and "waits (snd (final_loop post pl 0 \<lparr>posts = [], waits = []\<rparr>)) = []"
  using assms
  by (cases "post 0 pl"; simp add: final_loop.simps[of post pl 0] MAX_RETRIES_def)+

lemma generate_final_summary_trace:
  "snd (generate_final_summary post c) =
     snd (final_loop post (final_payload c) 0 \<lparr>posts = [], waits = []\<rparr>)"
  by (cases "final_loop post (final_payload c) 0 \<lparr>posts = [], waits = []\<rparr>")
    (simp add: generate_final_summary_def split: sum.splits)

lemma sample_split: "split_text sample_env ''abcd'' = [''ab'', ''cd'']"
  by (simp add: sample_env_def halves_def)

lemma sample_task_0: "chunk_task sample_env 0 ''ab'' = (PStr ''summary'', \<lparr>calls = 3, sleeps = [5, 10]\<rparr>)"
  by code_simp
lemma sample_task_1: "chunk_task sample_env (Suc 0) ''cd'' = (PStr ''summary'', \<lparr>calls = 1, sleeps = []\<rparr>)"
  by code_simp
lemma str_int_small: "str_int 1 = ''1''" "str_int 2 = ''2''" by code_simp+

theorem dispatch_index_aligned_witness:
  "{0..<length (split_text sample_env ''abcd'')} \<subseteq> set (completion sample_env) \<and>
   dispatch sample_env (split_text sample_env ''abcd'') =
     Some [PStr ''summary'', PStr ''summary''] \<and>
   combined_chunk_summaries (py_str sample_env) [PStr ''summary'', PStr ''summary''] =
     ''Section 1:\<newline>summary\<newline>\<newline>Section 2:\<newline>summary''"
proof -
  have h: "{0..<length (split_text sample_env ''abcd'')} \<subseteq> set (completion sample_env)"
    unfolding sample_split by (auto simp: sample_env_def less_Suc_eq)
  from dispatch_index_aligned[OF h] obtain outs where
    d: "dispatch sample_env (split_text sample_env ''abcd'') = Some outs" and
    l: "length outs = length (split_text sample_env ''abcd'')" and
    n: "\<forall>i<length (split_text sample_env ''abcd'').
          outs ! i = fst (chunk_task sample_env i (split_text sample_env ''abcd'' ! i))" and
    c: "combined_chunk_summaries (py_str sample_env) outs =
       join ''\<newline>\<newline>''
         (map (\<lambda>i. ''Section '' @ str_int (int i + 1) @ '':\<newline>'' @
                  py_format (py_str sample_env) (outs ! i))
            [0..<length (split_text sample_env ''abcd'')])"
    by blast
  have "outs ! 0 = PStr ''summary''" "outs ! 1 = PStr ''summary''"
    using n by (simp_all add: sample_split sample_task_0 sample_task_1)
  with l have outs: "outs = [PStr ''summary'', PStr ''summary'']"
    by (cases outs; cases "tl outs"; cases "tl (tl outs)") (auto simp: sample_split)
  have u: "[0..<2] = [0, 1]" by (simp add: upt_rec)
  from c have "combined_chunk_summaries (py_str sample_env) [PStr ''summary'', PStr ''summary''] =
     ''Section 1:\<newline>summary\<newline>\<newline>Section 2:\<newline>summary''"
    unfolding outs by (simp add: sample_split u str_int_small)
  with h d outs show ?thesis by simp
qed

theorem all_failed_short_circuit_witness:
  "is_error_str (PStr ''Error in chunk 1: Request timed out.'') \<and>
   is_error_str (PStr ''Error processing chunk 2: boom'') \<and>
   aggregate sample_env
     [PStr ''Error in chunk 1: Request timed out.'', PStr ''Error processing chunk 2: boom''] =
     (Inr (PStr no_summary), \<lparr>posts = [], waits = []\<rparr>)"
  using all_failed_short_circuit[of
      "[PStr ''Error in chunk 1: Request timed out.'', PStr ''Error processing chunk 2: boom'']"
      sample_env]
  by (simp add: less_Suc_eq numeral_2_eq_2)

section \<open>The wrapper of one chunk\<close>

lemma chunk_handlers_cases:
  "(\<exists>s. chunk_handlers cid e = Inr (PStr s) \<and> prefix ''Error'' s) \<or> (\<exists>e'. chunk_handlers cid e = Inl e')"
  by (cases e) simp_all

lemma wrapper_failure:
  assumes "chunk_try_body post chunk = Inl e"
  shows "\<exists>s. summarize_chunk_wrapper post chunk cid = Inr (PStr s) \<and> prefix ''Error'' s"
  using assms chunk_handlers_cases[of cid e]
  by (auto simp: summarize_chunk_wrapper_def)

lemma py_len_Inr: "py_len v = Inr n \<Longrightarrow> is_str v \<or> is_container v"
  by (cases v) simp_all

lemma wrapper_success:
  assumes "chunk_try_body post chunk = Inr v"
  shows "summarize_chunk_wrapper post chunk cid = Inr v \<and> (is_str v \<or> is_container v)"
proof -
  from assms obtain n where "py_len v = Inr n"
    by (auto simp: chunk_try_body_def split: sum.splits)
  then have "is_str v \<or> is_container v" by (rule py_len_Inr)
  with assms show ?thesis by (simp add: summarize_chunk_wrapper_def)
qed

text \<open>
  C10, as amended. Whatever the backend does for the request of a chunk, the wrapper
  returns and lets no exception out. On every failure path it returns a string that starts
  with Error: when the request raises (as it does for a timeout, a refused connection, an
  HTTP status error or any other fault), when the decoded reply has no \<^verbatim>\<open>message\<close>,
  when the message has no \<^verbatim>\<open>content\<close>, and when the content has no length. Otherwise
  it returns the content of the reply unchanged, which is a string or, when the reply
  carries a JSON array or object there, that array or object.
\<close>

theorem wrapper_returns_error_strings:
  "(\<exists>v. summarize_chunk_wrapper post chunk cid = Inr v) \<and>
   (\<forall>e. post (chunk_payload chunk) = Inl e \<longrightarrow>
      (\<exists>s. summarize_chunk_wrapper post chunk cid = Inr (PStr s) \<and> prefix ''Error'' s)) \<and>
   (\<forall>body e. post (chunk_payload chunk) = Inr body \<and> getitem body ''message'' = Inl e \<longrightarrow>
      (\<exists>s. summarize_chunk_wrapper post chunk cid = Inr (PStr s) \<and> prefix ''Error'' s)) \<and>
   (\<forall>body message e.
      post (chunk_payload chunk) = Inr body \<and> getitem body ''message'' = Inr message \<and>
      getitem message ''content'' = Inl e \<longrightarrow>
      (\<exists>s. summarize_chunk_wrapper post chunk cid = Inr (PStr s) \<and> prefix ''Error'' s)) \<and>
   (\<forall>body message content e.
      post (chunk_payload chunk) = Inr body \<and> getitem body ''message'' = Inr message \<and>
      getitem message ''content'' = Inr content \<and> py_len content = Inl e \<longrightarrow>
      (\<exists>s. summarize_chunk_wrapper post chunk cid = Inr (PStr s) \<and> prefix ''Error'' s)) \<and>
   (\<forall>body message content n.
      post (chunk_payload chunk) = Inr body \<and> getitem body ''message'' = Inr message \<and>
      getitem message ''content'' = Inr content \<and> py_len content = Inr n \<longrightarrow>
      summarize_chunk_wrapper post chunk cid = Inr content \<and>
      (is_str content \<or> is_container content))"
proof (intro conjI allI impI)
  show "\<exists>v. summarize_chunk_wrapper post chunk cid = Inr v"
    by (cases "chunk_try_body post chunk") (use wrapper_failure wrapper_success in blast)+
next
  fix e assume "post (chunk_payload chunk) = Inl e"
  then have "chunk_try_body post chunk = Inl e" by (simp add: chunk_try_body_def)
  then show "\<exists>s. summarize_chunk_wrapper post chunk cid = Inr (PStr s) \<and> prefix ''Error'' s"
    by (rule wrapper_failure)
next
  fix body e
  assume "post (chunk_payload chunk) = Inr body \<and> getitem body ''message'' = Inl e"
  then have "chunk_try_body post chunk = Inl e" by (simp add: chunk_try_body_def)
  then show "\<exists>s. summarize_chunk_wrapper post chunk cid = Inr (PStr s) \<and> prefix ''Error'' s"
    by (rule wrapper_failure)
next
  fix body message e
  assume "post (chunk_payload chunk) = Inr body \<and> getitem body ''message'' = Inr message \<and>
      getitem message ''content'' = Inl e"
  then have "chunk_try_body post chunk = Inl e" by (simp add: chunk_try_body_def)
  then show "\<exists>s. summarize_chunk_wrapper post chunk cid = Inr (PStr s) \<and> prefix ''Error'' s"
    by (rule wrapper_failure)
next
  fix body message content e
  assume "post (chunk_payload chunk) = Inr body \<and> getitem body ''message'' = Inr message \<and>
      getitem message ''content'' = Inr content \<and> py_len content = Inl e"
  then have "chunk_try_body post chunk = Inl e" by (simp add: chunk_try_body_def)
  then show "\<exists>s. summarize_chunk_wrapper post chunk cid = Inr (PStr s) \<and> prefix ''Error'' s"
    by (rule wrapper_failure)
next
  fix body message content n
  assume "post (chunk_payload chunk) = Inr body \<and> getitem body ''message'' = Inr message \<and>
      getitem message ''content'' = Inr content \<and> py_len content = Inr n"
  then have b: "chunk_try_body post chunk = Inr content" by (simp add: chunk_try_body_def)
  from wrapper_success[OF b]
  show "summarize_chunk_wrapper post chunk cid = Inr content" by simp
  from wrapper_success[OF b]
  show "is_str content \<or> is_container content" by simp
qed

theorem wrapper_returns_error_strings_witness:
  "timeout_post (chunk_payload ''a chunk'') = Inl (TimeoutException ''timed out'') \<and>
   summarize_chunk_wrapper timeout_post ''a chunk'' 1 =
     Inr (PStr (''Error in chunk 1: Request timed out. '' @
        ''Consider increasing the timeout or reducing chunk size.'')) \<and>
   getitem (PDict [(''error'', PStr ''model not found'')]) ''message'' = Inl (KeyError ''message'') \<and>
   summarize_chunk_wrapper keyless_post ''a chunk'' 1 =
     Inr (PStr (''Error processing chunk 1: '' @ quoted ''message'')) \<and>
   getitem (PDict [(''role'', PStr ''assistant'')]) ''content'' = Inl (KeyError ''content'') \<and>
   summarize_chunk_wrapper contentless_post ''a chunk'' 1 =
     Inr (PStr (''Error processing chunk 1: '' @ quoted ''content'')) \<and>
   py_len (PInt 3) = Inl (TypeError (''object of type '' @ quoted ''int'' @ '' has no len()'')) \<and>
   summarize_chunk_wrapper number_content_post ''a chunk'' 1 =
     Inr (PStr (''Error processing chunk 1: object of type '' @ quoted ''int'' @
        '' has no len()'')) \<and>
   py_len (PStr ''summary'') = Inr 7 \<and>
   summarize_chunk_wrapper summary_post ''a chunk'' 1 = Inr (PStr ''summary'') \<and>
   is_str (PStr ''summary'')"
proof -
  have one: "str_int 1 = ''1''" by code_simp
  have a: "timeout_post (chunk_payload ''a chunk'') = Inl (TimeoutException ''timed out'')"
    by (simp add: timeout_post_def)
  from wrapper_returns_error_strings[of timeout_post "''a chunk''" 1] a
  obtain s1 where s1: "summarize_chunk_wrapper timeout_post ''a chunk'' 1 = Inr (PStr s1)"
    "prefix ''Error'' s1" by blast
  then have 1: "summarize_chunk_wrapper timeout_post ''a chunk'' 1 =
     Inr (PStr (''Error in chunk 1: Request timed out. '' @
        ''Consider increasing the timeout or reducing chunk size.''))"
    by (simp add: summarize_chunk_wrapper_def chunk_try_body_def timeout_post_def one)
  have b: "keyless_post (chunk_payload ''a chunk'') = Inr (PDict [(''error'', PStr ''model not found'')]) \<and>
      getitem (PDict [(''error'', PStr ''model not found'')]) ''message'' = Inl (KeyError ''message'')"
    by (simp add: keyless_post_def)
  from wrapper_returns_error_strings[of keyless_post "''a chunk''" 1] b
  obtain s2 where s2: "summarize_chunk_wrapper keyless_post ''a chunk'' 1 = Inr (PStr s2)"
    "prefix ''Error'' s2" by blast
  then have 2: "summarize_chunk_wrapper keyless_post ''a chunk'' 1 =
     Inr (PStr (''Error processing chunk 1: '' @ quoted ''message''))"
    by (simp add: summarize_chunk_wrapper_def chunk_try_body_def keyless_post_def one)
  have c: "contentless_post (chunk_payload ''a chunk'') =
        Inr (PDict [(''message'', PDict [(''role'', PStr ''assistant'')])]) \<and>
      getitem (PDict [(''message'', PDict [(''role'', PStr ''assistant'')])]) ''message'' =
        Inr (PDict [(''role'', PStr ''assistant'')]) \<and>
      getitem (PDict [(''role'', PStr ''assistant'')]) ''content'' = Inl (KeyError ''content'')"
    by (simp add: contentless_post_def)
  from wrapper_returns_error_strings[of contentless_post "''a chunk''" 1] c
  obtain s3 where s3: "summarize_chunk_wrapper contentless_post ''a chunk'' 1 = Inr (PStr s3)"
    "prefix ''Error'' s3" by blast
  then have 3: "summarize_chunk_wrapper contentless_post ''a chunk'' 1 =
     Inr (PStr (''Error processing chunk 1: '' @ quoted ''content''))"
    by (simp add: summarize_chunk_wrapper_def chunk_try_body_def contentless_post_def one)
  have d: "number_content_post (chunk_payload ''a chunk'') = Inr (ok_body (PInt 3)) \<and>
      getitem (ok_body (PInt 3)) ''message'' = Inr (PDict [(''content'', PInt 3)]) \<and>
      getitem (PDict [(''content'', PInt 3)]) ''content'' = Inr (PInt 3) \<and>
      py_len (PInt 3) = Inl (TypeError (''object of type '' @ quoted ''int'' @ '' has no len()''))"
    by (simp add: number_content_post_def ok_body_def)
  from wrapper_returns_error_strings[of number_content_post "''a chunk''" 1] d
  obtain s4 where s4: "summarize_chunk_wrapper number_content_post ''a chunk'' 1 = Inr (PStr s4)"
    "prefix ''Error'' s4" by blast
  then have 4: "summarize_chunk_wrapper number_content_post ''a chunk'' 1 =
     Inr (PStr (''Error processing chunk 1: object of type '' @ quoted ''int'' @
        '' has no len()''))"
    by (simp add: summarize_chunk_wrapper_def chunk_try_body_def number_content_post_def
        ok_body_def one)
  have e: "summary_post (chunk_payload ''a chunk'') = Inr (ok_body (PStr ''summary'')) \<and>
      getitem (ok_body (PStr ''summary'')) ''message'' = Inr (PDict [(''content'', PStr ''summary'')]) \<and>
      getitem (PDict [(''content'', PStr ''summary'')]) ''content'' = Inr (PStr ''summary'') \<and>
      py_len (PStr ''summary'') = Inr 7"
    by (simp add: summary_post_def ok_body_def)
  from wrapper_returns_error_strings[of summary_post "''a chunk''" 1] e
  have 5: "summarize_chunk_wrapper summary_post ''a chunk'' 1 = Inr (PStr ''summary'')"
    by blast
  from a b c d e 1 2 3 4 5 show ?thesis by simp
qed

theorem wrapper_returns_non_string_counterexample:
  "summarize_chunk_wrapper list_content_post ''a chunk'' 1 = Inr (PList [PStr ''x'']) \<and>
   \<not> is_str (PList [PStr ''x''])"
  by (simp add: summarize_chunk_wrapper_def chunk_try_body_def list_content_post_def ok_body_def)

section \<open>The final stage\<close>

lemma final_user_prompt_sublist: "sublist c (final_user_prompt c)"
  unfolding final_user_prompt_def sublist_def by (metis append.assoc)

text \<open>
  C4. When at least one of the \<open>N\<close> outcomes is a success and the first request of the final
  stage needs no retry, the aggregation posts exactly one request to the backend. Its user
  message carries the combined summary, which is the \<open>N\<close> sections Section 1 to Section
  \<open>N\<close> in the order of the chunks, a failed chunk being present with its error text.
\<close>

theorem aggregate_one_final_call:
  "(\<exists>i<length summaries. \<not> is_error_str (summaries ! i)) \<and>
   \<not> (\<exists>e. final_post E 0 (final_payload (combined_chunk_summaries (py_str E) summaries)) = Inl e \<and>
          is_HTTPError e) \<longrightarrow>
   posts (snd (aggregate E summaries)) =
     [final_payload (combined_chunk_summaries (py_str E) summaries)] \<and>
   waits (snd (aggregate E summaries)) = [] \<and>
   messages (final_payload (combined_chunk_summaries (py_str E) summaries)) ! 1 =
     (''user'', final_user_prompt (combined_chunk_summaries (py_str E) summaries)) \<and>
   sublist (combined_chunk_summaries (py_str E) summaries)
     (final_user_prompt (combined_chunk_summaries (py_str E) summaries)) \<and>
   combined_chunk_summaries (py_str E) summaries =
     join ''\<newline>\<newline>''
       (map (\<lambda>i. ''Section '' @ str_int (int i + 1) @ '':\<newline>'' @
                py_format (py_str E) (summaries ! i))
          [0..<length summaries]) \<and>
   (\<forall>i s. summaries ! i = PStr s \<longrightarrow> py_format (py_str E) (summaries ! i) = s)"
proof (intro impI)
  let ?c = "combined_chunk_summaries (py_str E) summaries"
  assume a: "(\<exists>i<length summaries. \<not> is_error_str (summaries ! i)) \<and>
   \<not> (\<exists>e. final_post E 0 (final_payload ?c) = Inl e \<and> is_HTTPError e)"
  then obtain i where "i < length summaries" "\<not> is_error_str (summaries ! i)" by blast
  then have "\<exists>v\<in>set summaries. \<not> is_error_str v" using nth_mem by blast
  then have "filter (\<lambda>s. \<not> is_error_str s) summaries \<noteq> []"
    by (simp add: filter_empty_conv)
  then have agg: "aggregate E summaries = generate_final_summary (final_post E) ?c"
    by (simp add: aggregate_def)
  from a have n: "\<not> (\<exists>e. final_post E 0 (final_payload ?c) = Inl e \<and> is_HTTPError e)" by simp
  have 1: "posts (snd (aggregate E summaries)) = [final_payload ?c]"
    by (simp add: agg generate_final_summary_trace final_loop_first(1)[of "final_post E" "final_payload ?c", OF n])
  have 2: "waits (snd (aggregate E summaries)) = []"
    by (simp add: agg generate_final_summary_trace final_loop_first(2)[of "final_post E" "final_payload ?c", OF n])
  have 3: "messages (final_payload ?c) ! 1 = (''user'', final_user_prompt ?c)"
    by (simp add: final_payload_def)
  have 4: "?c = join ''\<newline>\<newline>''
       (map (\<lambda>i. ''Section '' @ str_int (int i + 1) @ '':\<newline>'' @
                py_format (py_str E) (summaries ! i))
          [0..<length summaries])"
    by (simp add: combined_sections section_text_def)
  have 5: "\<forall>i s. summaries ! i = PStr s \<longrightarrow> py_format (py_str E) (summaries ! i) = s"
    by simp
  from 1 2 3 4 5 final_user_prompt_sublist[of ?c]
  show "posts (snd (aggregate E summaries)) = [final_payload ?c] \<and>
   waits (snd (aggregate E summaries)) = [] \<and>
   messages (final_payload ?c) ! 1 = (''user'', final_user_prompt ?c) \<and>
   sublist ?c (final_user_prompt ?c) \<and>
   ?c = join ''\<newline>\<newline>''
       (map (\<lambda>i. ''Section '' @ str_int (int i + 1) @ '':\<newline>'' @
                py_format (py_str E) (summaries ! i))
          [0..<length summaries]) \<and>
   (\<forall>i s. summaries ! i = PStr s \<longrightarrow> py_format (py_str E) (summaries ! i) = s)"
    by blast
qed

lemma sample_combined:
  "combined_chunk_summaries (py_str sample_env)
     [PStr ''summary'', PStr ''Error in chunk 2: Request timed out.''] =
   ''Section 1:\<newline>summary\<newline>\<newline>Section 2:\<newline>Error in chunk 2: Request timed out.''"
  by (simp add: combined_chunk_summaries_def enumerate_eq_zip upt_rec section_text_def
      str_int_small)

theorem aggregate_one_final_call_witness:
  "\<not> is_error_str (PStr ''summary'') \<and>
   final_post sample_env 0
     (final_payload (''Section 1:\<newline>summary\<newline>\<newline>Section 2:\<newline>'' @
        ''Error in chunk 2: Request timed out.'')) = Inr (ok_body (PStr ''final document'')) \<and>
   posts (snd (aggregate sample_env
     [PStr ''summary'', PStr ''Error in chunk 2: Request timed out.''])) =
     [final_payload (''Section 1:\<newline>summary\<newline>\<newline>Section 2:\<newline>'' @
        ''Error in chunk 2: Request timed out.'')] \<and>
   waits (snd (aggregate sample_env
     [PStr ''summary'', PStr ''Error in chunk 2: Request timed out.''])) = []"
proof -
  let ?s = "[PStr ''summary'', PStr ''Error in chunk 2: Request timed out.'']"
  have h1: "\<exists>i<length ?s. \<not> is_error_str (?s ! i)"
    by (rule exI[of _ 0]) simp
  have f: "final_post sample_env 0 pl = Inr (ok_body (PStr ''final document''))" for pl
    by (simp add: sample_env_def sample_final_post_def)
  have h2: "\<not> (\<exists>e. final_post sample_env 0
      (final_payload (combined_chunk_summaries (py_str sample_env) ?s)) = Inl e \<and> is_HTTPError e)"
    by (simp add: f)
  from aggregate_one_final_call[of ?s sample_env] h1 h2
  have "posts (snd (aggregate sample_env ?s)) =
     [final_payload (combined_chunk_summaries (py_str sample_env) ?s)] \<and>
     waits (snd (aggregate sample_env ?s)) = []"
    by blast
  then show ?thesis using f by (simp add: sample_combined)
qed

section \<open>The entry point\<close>

lemma keyless_split: "split_text keyless_env ''abcd'' = [''ab'', ''cd'']"
  by (simp add: keyless_env_def halves_def)

text \<open>
  C5 fails on the code. With a final response that decodes to a body without the key
  \<^verbatim>\<open>message\<close>, the entry point raises \<^verbatim>\<open>KeyError\<close>: line 317 reads the key outside
  every \<^verbatim>\<open>try\<close>.
\<close>

theorem entry_point_raises_KeyError:
  "map_option returned (summarize_text_parallel keyless_env ''abcd'') =
     Some (Inl (KeyError ''message''))"
  by code_simp

section \<open>Strings that start with Error\<close>

lemma retry_loop_soft_step:
  assumes "retries + 1 \<le> max_retries" "wrapper (calls tr) = Inr (PStr s)" "prefix ''Error'' s"
  shows "retry_loop wrapper cid max_retries retries tr =
     retry_loop wrapper cid max_retries (retries + 1)
       \<lparr>calls = calls tr + 1, sleeps = sleeps tr @ [wait_time (retries + 1)]\<rparr>"
  using assms by (subst retry_loop.simps) simp

lemma retry_loop_soft_last:
  assumes "retries = max_retries" "wrapper (calls tr) = Inr (PStr s)" "prefix ''Error'' s"
  shows "retry_loop wrapper cid max_retries retries tr =
     (PStr s, \<lparr>calls = calls tr + 1, sleeps = sleeps tr\<rparr>)"
  using assms by (subst retry_loop.simps) simp

lemma wrapper_passes_content:
  assumes "post (chunk_payload chunk) = Inr (ok_body (PStr s))"
  shows "summarize_chunk_wrapper post chunk cid = Inr (PStr s)"
  using assms by (simp add: summarize_chunk_wrapper_def chunk_try_body_def ok_body_def)

lemma wait_times: "map (\<lambda>n. wait_time (int n)) [1..<nat MAX_RETRIES + 1] = [5, 10]"
  by (simp add: MAX_RETRIES_def wait_time_def RETRY_BACKOFF_BASE_def upt_rec)

lemma error_titled_task:
  assumes "\<forall>n pl. \<exists>s. chunk_post E i n pl = Inr (ok_body (PStr s)) \<and> prefix ''Error'' s"
  shows "is_error_str (fst (chunk_task E i chunk)) \<and>
     snd (chunk_task E i chunk) = \<lparr>calls = 3, sleeps = [5, 10]\<rparr>"
proof -
  let ?w = "\<lambda>n. summarize_chunk_wrapper (chunk_post E i n) chunk (int i + 1)"
  have w: "\<exists>s. ?w n = Inr (PStr s) \<and> prefix ''Error'' s" for n
  proof -
    from assms obtain s where
      "chunk_post E i n (chunk_payload chunk) = Inr (ok_body (PStr s))" "prefix ''Error'' s"
      by blast
    then show ?thesis using wrapper_passes_content by blast
  qed
  then have f: "\<forall>n. int n \<le> MAX_RETRIES \<longrightarrow> attempt_failed (?w n)"
    by (metis attempt_failed.simps(2) is_error_str.simps(1))
  have "0 \<le> MAX_RETRIES" by (simp add: MAX_RETRIES_def)
  then have t: "chunk_task E i chunk =
     (last_failure (int i + 1) MAX_RETRIES (?w (nat MAX_RETRIES)),
      \<lparr>calls = nat MAX_RETRIES + 1, sleeps = [5, 10]\<rparr>)"
    unfolding chunk_task_def using f
    by (rule retry_exhaust_trace[of MAX_RETRIES ?w "int i + 1", unfolded wait_times])
  from w[of "nat MAX_RETRIES"] obtain s where
    "?w (nat MAX_RETRIES) = Inr (PStr s)" "prefix ''Error'' s" by blast
  with t show ?thesis by (simp add: MAX_RETRIES_def)
qed

lemma run_all_error_titled:
  assumes c: "{0..<length (split_text E text)} \<subseteq> set (completion E)"
    and p: "\<forall>i n pl. \<exists>s. chunk_post E i n pl = Inr (ok_body (PStr s)) \<and> prefix ''Error'' s"
  shows "summarize_text_parallel E text =
     Some \<lparr>returned = Inr (PStr no_summary),
           chunk_traces = replicate (length (split_text E text)) \<lparr>calls = 3, sleeps = [5, 10]\<rparr>,
           final_stage = \<lparr>posts = [], waits = []\<rparr>\<rparr>"
proof -
  let ?chunks = "split_text E text"
  let ?outs = "map (\<lambda>i. fst (chunk_task E i (?chunks ! i))) [0..<length ?chunks]"
  have d: "dispatch E ?chunks = Some ?outs" by (rule dispatch_complete[OF c])
  have "\<forall>v\<in>set ?outs. is_error_str v"
    using error_titled_task[of E] p by simp
  then have a: "aggregate E ?outs = (Inr (PStr no_summary), \<lparr>posts = [], waits = []\<rparr>)"
    by (rule aggregate_all_errors)
  have t: "map (\<lambda>(i, chunk). snd (chunk_task E i chunk)) (enumerate 0 ?chunks) =
     replicate (length ?chunks) \<lparr>calls = 3, sleeps = [5, 10]\<rparr>"
    by (rule nth_equalityI) (use error_titled_task[of E] p in \<open>simp_all add: nth_enumerate_eq\<close>)
  show ?thesis
    unfolding summarize_text_parallel_def Let_def d using a t by simp
qed

text \<open>
  C7. In the retry loop of a chunk a returned string that starts with Error is a failed
  attempt: while the budget lasts the loop sleeps and calls again, and on the last attempt
  it returns that string. The wrapper hands the content of a well-formed response through
  unchanged, so this holds for a legitimate summary that begins with the word Error too;
  and after the loop such strings are not among the successful summaries: when every
  chunk of a text is answered with such summaries, each chunk is requested three times and
  the entry point returns the sentence that no meaningful summary could be generated,
  without a final request.
\<close>

theorem error_prefix_is_soft_failure:
  "(retries + 1 \<le> max_retries \<and> wrapper (calls tr) = Inr (PStr s) \<and> prefix ''Error'' s \<longrightarrow>
      retry_loop wrapper cid max_retries retries tr =
        retry_loop wrapper cid max_retries (retries + 1)
          \<lparr>calls = calls tr + 1, sleeps = sleeps tr @ [wait_time (retries + 1)]\<rparr>) \<and>
   (retries = max_retries \<and> wrapper (calls tr) = Inr (PStr s) \<and> prefix ''Error'' s \<longrightarrow>
      retry_loop wrapper cid max_retries retries tr =
        (PStr s, \<lparr>calls = calls tr + 1, sleeps = sleeps tr\<rparr>)) \<and>
   (post (chunk_payload chunk) = Inr (ok_body (PStr s)) \<longrightarrow>
      summarize_chunk_wrapper post chunk cid = Inr (PStr s)) \<and>
   ({0..<length (split_text E document)} \<subseteq> set (completion E) \<and>
    (\<forall>i n pl. \<exists>s'. chunk_post E i n pl = Inr (ok_body (PStr s')) \<and> prefix ''Error'' s') \<longrightarrow>
      summarize_text_parallel E document =
        Some \<lparr>returned = Inr (PStr no_summary),
              chunk_traces =
                replicate (length (split_text E document)) \<lparr>calls = 3, sleeps = [5, 10]\<rparr>,
              final_stage = \<lparr>posts = [], waits = []\<rparr>\<rparr>)"
  using retry_loop_soft_step[of retries max_retries wrapper tr s cid]
    retry_loop_soft_last[of retries max_retries wrapper tr s cid]
    wrapper_passes_content[of post chunk s cid]
    run_all_error_titled[of E document]
  by blast

theorem error_prefix_is_soft_failure_witness:
  "{0..<length (split_text error_titled_env ''abcd'')} \<subseteq> set (completion error_titled_env) \<and>
   error_titled_post 0 0 (chunk_payload ''ab'') =
     Inr (ok_body (PStr ''Error bounds of the estimator are derived.'')) \<and>
   prefix ''Error'' ''Error bounds of the estimator are derived.'' \<and>
   summarize_text_parallel error_titled_env ''abcd'' =
     Some \<lparr>returned = Inr (PStr no_summary),
           chunk_traces = [\<lparr>calls = 3, sleeps = [5, 10]\<rparr>, \<lparr>calls = 3, sleeps = [5, 10]\<rparr>],
           final_stage = \<lparr>posts = [], waits = []\<rparr>\<rparr>"
proof -
  have sp: "split_text error_titled_env ''abcd'' = [''ab'', ''cd'']"
    by (simp add: error_titled_env_def halves_def)
  have h1: "{0..<length (split_text error_titled_env ''abcd'')} \<subseteq> set (completion error_titled_env)"
    unfolding sp by (auto simp: error_titled_env_def less_Suc_eq)
  have h2: "\<forall>i n pl. \<exists>s'. chunk_post error_titled_env i n pl = Inr (ok_body (PStr s')) \<and>
      prefix ''Error'' s'"
    by (intro allI exI[of _ "''Error bounds of the estimator are derived.''"])
      (simp add: error_titled_env_def error_titled_post_def)
  from error_prefix_is_soft_failure[where E = error_titled_env and document = "''abcd''"] h1 h2
  have "summarize_text_parallel error_titled_env ''abcd'' =
     Some \<lparr>returned = Inr (PStr no_summary),
           chunk_traces = replicate (length (split_text error_titled_env ''abcd''))
             \<lparr>calls = 3, sleeps = [5, 10]\<rparr>,
           final_stage = \<lparr>posts = [], waits = []\<rparr>\<rparr>"
    by blast
  then show ?thesis using h1 by (simp add: sp error_titled_post_def numeral_2_eq_2)
qed

section \<open>Raised faults and error results in the two retry loops\<close>

lemma retry_loop_trace_cong:
  assumes "\<forall>n. attempt_failed (w1 n) = attempt_failed (w2 n)"
  shows "snd (retry_loop w1 cid max_retries retries tr) =
     snd (retry_loop w2 cid max_retries retries tr)"
proof (induction "nat (max_retries + 1 - retries)" arbitrary: retries tr)
  case 0
  then have "\<not> retries \<le> max_retries" by simp
  then show ?case by (simp add: retry_loop.simps[of _ _ max_retries retries])
next
  case (Suc d)
  then have le: "retries \<le> max_retries" by simp
  have f: "attempt_failed (w1 (calls tr)) = attempt_failed (w2 (calls tr))"
    using assms by simp
  show ?case
  proof (cases "retries + 1 \<le> max_retries")
    case True
    let ?tr = "\<lparr>calls = calls tr + 1, sleeps = sleeps tr @ [wait_time (retries + 1)]\<rparr>"
    have d: "d = nat (max_retries + 1 - (retries + 1))" using Suc.hyps(2) by simp
    have ih: "snd (retry_loop w1 cid max_retries (retries + 1) ?tr) =
        snd (retry_loop w2 cid max_retries (retries + 1) ?tr)"
      by (rule Suc.hyps(1)[OF d])
    show ?thesis
      using f le True ih
      by (cases "w1 (calls tr)"; cases "w2 (calls tr)")
        (simp_all add: retry_loop.simps[of _ _ max_retries retries tr])
  next
    case False
    show ?thesis
      using f le False
      by (cases "w1 (calls tr)"; cases "w2 (calls tr)")
        (simp_all add: retry_loop.simps[of _ _ max_retries retries tr])
  qed
qed

lemma final_loop_run:
  assumes "length (posts tr) = j" "retry_count = int j" "j \<le> k" "int k \<le> MAX_RETRIES"
    and "\<forall>n. j \<le> n \<and> n < k \<longrightarrow> (\<exists>e. post n pl = Inl e \<and> is_HTTPError e)"
    and "\<not> (\<exists>e. post k pl = Inl e \<and> is_HTTPError e)"
  shows "final_loop post pl retry_count tr =
     ((case post k pl of
         Inr body \<Rightarrow> Inr body
       | Inl e \<Rightarrow>
           Inl (''Failed to generate final summary due to an unexpected error. '' @
             ''Please check the logs for details.'')),
      \<lparr>posts = posts tr @ replicate (k + 1 - j) pl,
       waits = waits tr @ map (\<lambda>n. 10 * 2 ^ (n - 1)) [j + 1..<k + 1]\<rparr>)"
  using assms
proof (induction "k - j" arbitrary: j retry_count tr)
  case 0
  then have "j = k" by simp
  with 0 show ?case
    by (cases "post k pl") (auto simp: final_loop.simps)
next
  case (Suc d)
  then have jk: "j < k" by simp
  with Suc.prems obtain e where e: "post j pl = Inl e" "is_HTTPError e" by blast
  have le: "retry_count + 1 \<le> MAX_RETRIES" "retry_count \<le> MAX_RETRIES"
    using jk Suc.prems by simp_all
  let ?tr = "\<lparr>posts = posts tr @ [pl], waits = waits tr @ [10 * 2 ^ nat (retry_count + 1 - 1)]\<rparr>"
  have step: "final_loop post pl retry_count tr = final_loop post pl (retry_count + 1) ?tr"
    using e le Suc.prems(1)
    by (simp add: final_loop.simps[of post pl retry_count tr])
  have "final_loop post pl (retry_count + 1) ?tr =
     ((case post k pl of
         Inr body \<Rightarrow> Inr body
       | Inl e \<Rightarrow>
           Inl (''Failed to generate final summary due to an unexpected error. '' @
             ''Please check the logs for details.'')),
      \<lparr>posts = posts ?tr @ replicate (k + 1 - Suc j) pl,
       waits = waits ?tr @ map (\<lambda>n. 10 * 2 ^ (n - 1)) [Suc j + 1..<k + 1]\<rparr>)"
    using Suc.hyps(2) Suc.prems jk
    by (intro Suc.hyps(1)) auto
  moreover have "[j + 1..<k + 1] = (j + 1) # [Suc j + 1..<k + 1]"
    using jk by (simp add: upt_conv_Cons)
  moreover have "replicate (k + 1 - j) pl = pl # replicate (k + 1 - Suc j) pl"
    using jk by (simp add: Suc_diff_le flip: replicate_Suc)
  ultimately show ?case using step Suc.prems(2) by simp
qed

lemma final_loop_exhaust:
  assumes "\<forall>n. int n \<le> MAX_RETRIES \<longrightarrow> (\<exists>e. post n pl = Inl e \<and> is_HTTPError e)"
  shows "final_loop post pl 0 \<lparr>posts = [], waits = []\<rparr> =
     (Inl (''Failed to generate final summary after multiple attempts. '' @
        ''Please check the logs for details.''),
      \<lparr>posts = [pl, pl, pl], waits = [10, 20]\<rparr>)"
proof -
  have "\<exists>e. post n pl = Inl e \<and> is_HTTPError e" if "n \<le> 2" for n
    using assms that by (simp add: MAX_RETRIES_def)
  from this[of 0] this[of "Suc 0"] this[of "Suc (Suc 0)"] obtain e0 e1 e2 where
    "post 0 pl = Inl e0" "is_HTTPError e0" "post (Suc 0) pl = Inl e1" "is_HTTPError e1"
    "post (Suc (Suc 0)) pl = Inl e2" "is_HTTPError e2"
    by auto
  then show ?thesis
    by (simp add: final_loop.simps[of post pl] MAX_RETRIES_def)
qed

lemma wait_time_nat: "wait_time (int n) = 5 * 2 ^ (n - 1)"
  by (simp add: wait_time_def RETRY_BACKOFF_BASE_def nat_diff_distrib')

lemma retry_trace_cong:
  assumes "\<forall>n. attempt_failed (w1 n) = attempt_failed (w2 n)"
  shows "snd (summarize_chunk_with_retry w1 cid max_retries) =
     snd (summarize_chunk_with_retry w2 cid max_retries)"
  unfolding summarize_chunk_with_retry_def using assms by (rule retry_loop_trace_cong)

lemma retry_success_sleeps:
  assumes "int k \<le> max_retries" "\<forall>n<k. attempt_failed (w n)" "\<not> attempt_failed (w k)"
  shows "snd (summarize_chunk_with_retry w cid max_retries) =
     \<lparr>calls = k + 1, sleeps = map (\<lambda>n. 5 * 2 ^ (n - 1)) [1..<k + 1]\<rparr>"
proof -
  from assms(3) obtain r where "w k = Inr r" "\<not> is_error_str r"
    by (cases "w k") simp_all
  from retry_success_trace[OF assms(1,2) this, of cid] show ?thesis
    by (simp add: wait_time_nat)
qed

lemma final_unexpected:
  assumes "int k \<le> MAX_RETRIES"
    and "\<forall>n<k. \<exists>e. post n (final_payload c) = Inl e \<and> is_HTTPError e"
    and "post k (final_payload c) = Inl e" "\<not> is_HTTPError e"
  shows "generate_final_summary post c =
     (Inr (PStr (''Failed to generate final summary due to an unexpected error. '' @
        ''Please check the logs for details.'')),
      \<lparr>posts = replicate (k + 1) (final_payload c),
       waits = map (\<lambda>n. 10 * 2 ^ (n - 1)) [1..<k + 1]\<rparr>)"
proof -
  have "final_loop post (final_payload c) 0 \<lparr>posts = [], waits = []\<rparr> =
     (Inl (''Failed to generate final summary due to an unexpected error. '' @
        ''Please check the logs for details.''),
      \<lparr>posts = replicate (k + 1) (final_payload c),
       waits = map (\<lambda>n. 10 * 2 ^ (n - 1)) [1..<k + 1]\<rparr>)"
    using final_loop_run[of "\<lparr>posts = [], waits = []\<rparr>" 0 0 k post "final_payload c"] assms
    by simp
  then show ?thesis by (simp add: generate_final_summary_def)
qed

lemma final_exhausted:
  assumes "\<forall>n. int n \<le> MAX_RETRIES \<longrightarrow> (\<exists>e. post n (final_payload c) = Inl e \<and> is_HTTPError e)"
  shows "generate_final_summary post c =
     (Inr (PStr (''Failed to generate final summary after multiple attempts. '' @
        ''Please check the logs for details.'')),
      \<lparr>posts = [final_payload c, final_payload c, final_payload c], waits = [10, 20]\<rparr>)"
  using final_loop_exhaust[of post "final_payload c", OF assms]
  by (simp add: generate_final_summary_def)

text \<open>
  C6, as amended. In the retry loop of a chunk a raised fault and a returned error string
  are treated alike: the calls made and the sleeps taken depend only on which attempts
  failed, not on how, and the sleep before retry \<open>n\<close> is \<open>5 * 2 ^ (n - 1)\<close> seconds. The
  final stage has a loop of its own that differs: it retries only a raised
  \<^verbatim>\<open>httpx.HTTPError\<close>, sleeping \<open>10 * 2 ^ (n - 1)\<close> seconds, up to the same budget, and
  then returns a fixed sentence; any other raised fault makes it return another fixed
  sentence at once, without a retry.
\<close>

theorem retry_treatment_by_loop:
  "((\<forall>n. attempt_failed (w1 n) = attempt_failed (w2 n)) \<longrightarrow>
      snd (summarize_chunk_with_retry w1 cid max_retries) =
      snd (summarize_chunk_with_retry w2 cid max_retries)) \<and>
   (int k \<le> max_retries \<and> (\<forall>n<k. attempt_failed (w1 n)) \<and> \<not> attempt_failed (w1 k) \<longrightarrow>
      snd (summarize_chunk_with_retry w1 cid max_retries) =
        \<lparr>calls = k + 1, sleeps = map (\<lambda>n. 5 * 2 ^ (n - 1)) [1..<k + 1]\<rparr>) \<and>
   (int k \<le> MAX_RETRIES \<and>
    (\<forall>n<k. \<exists>e'. post n (final_payload c) = Inl e' \<and> is_HTTPError e') \<and>
    post k (final_payload c) = Inl e \<and> \<not> is_HTTPError e \<longrightarrow>
      generate_final_summary post c =
        (Inr (PStr (''Failed to generate final summary due to an unexpected error. '' @
           ''Please check the logs for details.'')),
         \<lparr>posts = replicate (k + 1) (final_payload c),
          waits = map (\<lambda>n. 10 * 2 ^ (n - 1)) [1..<k + 1]\<rparr>)) \<and>
   ((\<forall>n. int n \<le> MAX_RETRIES \<longrightarrow> (\<exists>e'. post n (final_payload c) = Inl e' \<and> is_HTTPError e')) \<longrightarrow>
      generate_final_summary post c =
        (Inr (PStr (''Failed to generate final summary after multiple attempts. '' @
           ''Please check the logs for details.'')),
         \<lparr>posts = [final_payload c, final_payload c, final_payload c], waits = [10, 20]\<rparr>))"
  using retry_trace_cong[of w1 w2 cid max_retries]
    retry_success_sleeps[of k max_retries w1 cid]
    final_unexpected[of k post c e]
    final_exhausted[of post c]
  by blast

theorem retry_treatment_by_loop_witness:
  "attempt_failed (failing_op 0) = attempt_failed (soft_failing_op 0) \<and>
   snd (summarize_chunk_with_retry failing_op 1 2) =
     snd (summarize_chunk_with_retry soft_failing_op 1 2) \<and>
   attempt_failed (flaky_op 0) \<and> attempt_failed (flaky_op 1) \<and> \<not> attempt_failed (flaky_op 2) \<and>
   snd (summarize_chunk_with_retry flaky_op 1 2) = \<lparr>calls = 3, sleeps = [5, 10]\<rparr> \<and>
   decode_error_post 0 (final_payload ''text'') = Inl (JSONDecodeError ''Expecting value'') \<and>
   \<not> is_HTTPError (JSONDecodeError ''Expecting value'') \<and>
   generate_final_summary decode_error_post ''text'' =
     (Inr (PStr (''Failed to generate final summary due to an unexpected error. '' @
        ''Please check the logs for details.'')),
      \<lparr>posts = [final_payload ''text''], waits = []\<rparr>) \<and>
   unavailable_post 0 (final_payload ''text'') = Inl (HTTPStatusError 503 ''Service Unavailable'') \<and>
   is_HTTPError (HTTPStatusError 503 ''Service Unavailable'') \<and>
   generate_final_summary unavailable_post ''text'' =
     (Inr (PStr (''Failed to generate final summary after multiple attempts. '' @
        ''Please check the logs for details.'')),
      \<lparr>posts = [final_payload ''text'', final_payload ''text'', final_payload ''text''],
       waits = [10, 20]\<rparr>)"
proof -
  have a: "\<forall>n. attempt_failed (failing_op n) = attempt_failed (soft_failing_op n)"
    by (simp add: failing_op_def soft_failing_op_def)
  have b: "int 2 \<le> (2::int) \<and> (\<forall>n<2. attempt_failed (flaky_op n)) \<and> \<not> attempt_failed (flaky_op 2)"
    using flaky_op_facts by simp
  have c: "int 0 \<le> MAX_RETRIES \<and>
    (\<forall>n<0. \<exists>e'. decode_error_post n (final_payload ''text'') = Inl e' \<and> is_HTTPError e') \<and>
    decode_error_post 0 (final_payload ''text'') = Inl (JSONDecodeError ''Expecting value'') \<and>
    \<not> is_HTTPError (JSONDecodeError ''Expecting value'')"
    by (simp add: MAX_RETRIES_def decode_error_post_def)
  have d: "\<forall>n. int n \<le> MAX_RETRIES \<longrightarrow>
      (\<exists>e'. unavailable_post n (final_payload ''text'') = Inl e' \<and> is_HTTPError e')"
    by (simp add: unavailable_post_def)
  have u: "[1..<2 + 1] = [1, 2::nat]" by (simp add: upt_rec)
  note t1 = retry_treatment_by_loop[of failing_op soft_failing_op 1 2 2 unavailable_post
      "''text''" "JSONDecodeError ''Expecting value''"]
  note t2 = retry_treatment_by_loop[of flaky_op flaky_op 1 2 2 decode_error_post
      "''text''" "JSONDecodeError ''Expecting value''"]
  note t3 = retry_treatment_by_loop[of flaky_op flaky_op 1 2 0 decode_error_post
      "''text''" "JSONDecodeError ''Expecting value''"]
  from t1 a have 1: "snd (summarize_chunk_with_retry failing_op 1 2) =
     snd (summarize_chunk_with_retry soft_failing_op 1 2)" by blast
  from t2 b have "snd (summarize_chunk_with_retry flaky_op 1 2) =
     \<lparr>calls = 2 + 1, sleeps = map (\<lambda>n. 5 * 2 ^ (n - 1)) [1..<2 + 1]\<rparr>" by blast
  then have 2: "snd (summarize_chunk_with_retry flaky_op 1 2) = \<lparr>calls = 3, sleeps = [5, 10]\<rparr>"
    unfolding u by simp
  from t3 c have 3: "generate_final_summary decode_error_post ''text'' =
     (Inr (PStr (''Failed to generate final summary due to an unexpected error. '' @
        ''Please check the logs for details.'')),
      \<lparr>posts = replicate (0 + 1) (final_payload ''text''),
       waits = map (\<lambda>n. 10 * 2 ^ (n - 1)) [1..<0 + 1]\<rparr>)" by blast
  from t1 d have 4: "generate_final_summary unavailable_post ''text'' =
     (Inr (PStr (''Failed to generate final summary after multiple attempts. '' @
        ''Please check the logs for details.'')),
      \<lparr>posts = [final_payload ''text'', final_payload ''text'', final_payload ''text''],
       waits = [10, 20]\<rparr>)" by blast
  from 1 2 3 4 a b c show ?thesis
    by (simp add: unavailable_post_def)
qed

theorem final_stage_returns_without_retry_counterexample:
  "decode_error_post 0 (final_payload ''text'') = Inl (JSONDecodeError ''Expecting value'') \<and>
   generate_final_summary decode_error_post ''text'' =
     (Inr (PStr (''Failed to generate final summary due to an unexpected error. '' @
        ''Please check the logs for details.'')),
      \<lparr>posts = [final_payload ''text''], waits = []\<rparr>) \<and>
   decode_error_op 0 = Inl (JSONDecodeError ''Expecting value'') \<and>
   snd (summarize_chunk_with_retry decode_error_op 1 MAX_RETRIES) = \<lparr>calls = 3, sleeps = [5, 10]\<rparr>"
proof -
  have "generate_final_summary decode_error_post ''text'' =
     (Inr (PStr (''Failed to generate final summary due to an unexpected error. '' @
        ''Please check the logs for details.'')),
      \<lparr>posts = replicate (0 + 1) (final_payload ''text''),
       waits = map (\<lambda>n. 10 * 2 ^ (n - 1)) [1..<0 + 1]\<rparr>)"
    by (rule final_unexpected[of 0 decode_error_post "''text''" "JSONDecodeError ''Expecting value''"])
      (simp_all add: MAX_RETRIES_def decode_error_post_def)
  moreover have "snd (summarize_chunk_with_retry decode_error_op 1 MAX_RETRIES) =
     \<lparr>calls = 3, sleeps = [5, 10]\<rparr>"
    using retry_exhaust_trace[of MAX_RETRIES decode_error_op 1, unfolded wait_times]
    by (simp add: decode_error_op_def MAX_RETRIES_def)
  ultimately show ?thesis by (simp add: decode_error_post_def decode_error_op_def)
qed

section \<open>The segmenter\<close>

lemma split_on_nonempty: "acc \<noteq> [] \<or> text \<noteq> [] \<Longrightarrow> split_on sep skip acc text \<noteq> []"
  by (induction "text" arbitrary: skip acc) auto

lemma pieces_Nil: "pieces sep [] = []"
  by (simp add: pieces_def)

lemma pieces_nonempty: "text \<noteq> [] \<Longrightarrow> pieces sep text \<noteq> []"
  by (simp add: pieces_def split_on_nonempty)

lemma choose_pieces_Nil: "choose_pieces maxc seps [] = []"
  by (induction seps) (simp_all add: pieces_Nil)

lemma choose_pieces_nonempty: "text \<noteq> [] \<Longrightarrow> choose_pieces maxc seps text \<noteq> []"
  by (induction seps) (simp_all add: pieces_nonempty)

lemma merge_pieces_nonempty: "merge_pieces maxc ov cur ps \<noteq> []"
  by (induction ps arbitrary: cur) simp_all

lemma choose_pieces_bound:
  "list_all (\<lambda>p. length p \<le> maxc) (choose_pieces maxc seps text) \<or>
   choose_pieces maxc seps text = [text]"
  by (induction seps) simp_all

lemma pieces_chars: "pieces [] text = map (\<lambda>c. [c]) text"
  by (simp add: pieces_def)

lemma choose_pieces_chars:
  assumes "1 \<le> maxc" "[] \<in> set seps"
  shows "list_all (\<lambda>p. length p \<le> maxc) (choose_pieces maxc seps text)"
  using assms(2)
proof (induction seps)
  case Nil
  then show ?case by simp
next
  case (Cons sep seps)
  show ?case
  proof (cases "list_all (\<lambda>p. length p \<le> maxc) (pieces sep text)")
    case True
    then show ?thesis by simp
  next
    case False
    have "sep \<noteq> []"
    proof
      assume "sep = []"
      then have "list_all (\<lambda>p. length p \<le> maxc) (pieces sep text)"
        using assms(1) by (simp add: pieces_chars list_all_iff)
      with False show False by simp
    qed
    with Cons.prems have "[] \<in> set seps" by auto
    with Cons.IH False show ?thesis by simp
  qed
qed

lemma overlap_tail_length: "length (overlap_tail n s) \<le> n"
  by (simp add: overlap_tail_def)

lemma merge_pieces_bound:
  assumes "length cur \<le> maxc" "list_all (\<lambda>p. length p \<le> maxc) ps"
  shows "list_all (\<lambda>c. length c \<le> maxc) (merge_pieces maxc ov cur ps)"
  using assms
proof (induction ps arbitrary: cur)
  case Nil
  then show ?case by simp
next
  case (Cons p ps)
  then have p: "length p \<le> maxc" and ps: "list_all (\<lambda>p. length p \<le> maxc) ps" by simp_all
  show ?case
  proof (cases "length cur + length p \<le> maxc")
    case True
    then show ?thesis using Cons.IH[of "cur @ p"] ps by simp
  next
    case False
    let ?cur = "overlap_tail (min ov (maxc - length p)) cur @ p"
    have "length (overlap_tail (min ov (maxc - length p)) cur) \<le> maxc - length p"
      using overlap_tail_length[of "min ov (maxc - length p)" cur] by simp
    with p have "length ?cur \<le> maxc" by simp
    then show ?thesis using False Cons.IH[of ?cur] ps Cons.prems(1) by simp
  qed
qed

lemma segment_bound:
  assumes "c \<in> set (segment text maxc ov)"
  shows "length c \<le> maxc \<or> (maxc = 0 \<and> c = text)"
proof (cases "1 \<le> maxc")
  case True
  have "[] \<in> set separators" by (simp add: separators_def)
  with True have all: "list_all (\<lambda>p. length p \<le> maxc) (choose_pieces maxc separators text)"
    by (rule choose_pieces_chars)
  show ?thesis
  proof (cases "choose_pieces maxc separators text")
    case Nil
    with assms show ?thesis by (simp add: segment_def)
  next
    case (Cons p ps)
    with all have "length p \<le> maxc" "list_all (\<lambda>p. length p \<le> maxc) ps" by simp_all
    then have "list_all (\<lambda>c. length c \<le> maxc) (merge_pieces maxc ov p ps)"
      by (rule merge_pieces_bound)
    with assms Cons show ?thesis by (simp add: segment_def list_all_iff)
  qed
next
  case False
  then have z: "maxc = 0" by simp
  from choose_pieces_bound[of maxc separators "text"] show ?thesis
  proof
    assume all: "list_all (\<lambda>p. length p \<le> maxc) (choose_pieces maxc separators text)"
    show ?thesis
    proof (cases "choose_pieces maxc separators text")
      case Nil
      with assms show ?thesis by (simp add: segment_def)
    next
      case (Cons p ps)
      with all have "length p \<le> maxc" "list_all (\<lambda>p. length p \<le> maxc) ps" by simp_all
      then have "list_all (\<lambda>c. length c \<le> maxc) (merge_pieces maxc ov p ps)"
        by (rule merge_pieces_bound)
      with assms Cons show ?thesis by (simp add: segment_def list_all_iff)
    qed
  next
    assume "choose_pieces maxc separators text = [text]"
    with assms z show ?thesis by (simp add: segment_def)
  qed
qed

text \<open>
  C8. The segmenter yields no chunk for the empty text and at least one chunk for any other
  text, and no chunk is longer than \<open>maxChunkChars\<close>, except that with a budget of zero,
  which not even a single character fits, the text is left whole.
\<close>

theorem segmenter_chunks:
  "segment [] maxChunkChars overlapChars = [] \<and>
   (doc \<noteq> [] \<longrightarrow> segment doc maxChunkChars overlapChars \<noteq> []) \<and>
   (\<forall>c\<in>set (segment doc maxChunkChars overlapChars).
      length c \<le> maxChunkChars \<or> (maxChunkChars = 0 \<and> c = doc))"
proof (intro conjI impI ballI)
  show "segment [] maxChunkChars overlapChars = []"
    by (simp add: segment_def choose_pieces_Nil)
next
  assume "doc \<noteq> []"
  then have "choose_pieces maxChunkChars separators doc \<noteq> []"
    by (rule choose_pieces_nonempty)
  then show "segment doc maxChunkChars overlapChars \<noteq> []"
    by (cases "choose_pieces maxChunkChars separators doc")
      (simp_all add: segment_def merge_pieces_nonempty)
next
  fix c assume "c \<in> set (segment doc maxChunkChars overlapChars)"
  then show "length c \<le> maxChunkChars \<or> (maxChunkChars = 0 \<and> c = doc)"
    by (rule segment_bound)
qed

lemma segment_sample:
  "segment ''ab. cd ef. gh'' 6 2 = [''ab. cd'', ''cd ef.'', ''f. gh'']"
  by code_simp

theorem segmenter_chunks_witness:
  "''ab. cd ef. gh'' \<noteq> [] \<and>
   segment ''ab. cd ef. gh'' 6 2 = [''ab. cd'', ''cd ef.'', ''f. gh''] \<and>
   length ''ab. cd'' \<le> (6::nat) \<and> length ''cd ef.'' \<le> (6::nat) \<and> length ''f. gh'' \<le> (6::nat)"
  using segmenter_chunks[of 6 2 "''ab. cd ef. gh''"]
  by (simp add: segment_sample)

section \<open>A text without separators\<close>

lemma split_on_absent:
  assumes "sep \<noteq> []" "hd sep \<notin> set doc"
  shows "split_on sep skip acc doc = (if acc @ doc = [] then [] else [acc @ doc])"
  using assms(2)
proof (induction doc arbitrary: skip acc)
  case Nil
  then show ?case by simp
next
  case (Cons c cs)
  from assms(1) obtain x xs where sep: "sep = x # xs" by (cases sep) auto
  with Cons.prems have "x \<noteq> c" by auto
  then have "\<not> prefix sep (c # cs)" by (simp add: sep)
  moreover have "hd sep \<notin> set cs" using Cons.prems by simp
  ultimately show ?case using Cons.IH[of "skip - 1" "acc @ [c]"] by simp
qed

lemma pieces_absent:
  assumes "sep \<noteq> []" "hd sep \<notin> set doc" "doc \<noteq> []"
  shows "pieces sep doc = [doc]"
  using assms by (simp add: pieces_def split_on_absent)

lemma choose_pieces_unbroken:
  assumes "maxc < n" "1 \<le> maxc"
  shows "choose_pieces maxc separators (replicate n (CHR ''a'')) = replicate n ''a''"
proof -
  let ?doc = "replicate n (CHR ''a'')"
  have ne: "?doc \<noteq> []" using assms by auto
  have p: "pieces sep ?doc = [?doc]" if "sep \<noteq> []" "hd sep \<noteq> CHR ''a''" for sep
    using that ne by (intro pieces_absent) auto
  have 1: "pieces ''\<newline>\<newline>'' ?doc = [?doc]" by (rule p) simp_all
  have 2: "pieces ''\<newline>'' ?doc = [?doc]" by (rule p) simp_all
  have 3: "pieces ''. '' ?doc = [?doc]" by (rule p) simp_all
  have 4: "pieces '' '' ?doc = [?doc]" by (rule p) simp_all
  have 5: "pieces [] ?doc = replicate n ''a''" by (simp add: pieces_def)
  show ?thesis
    using assms by (simp add: separators_def 1 2 3 4 5 list_all_iff)
qed

lemma merge_fill:
  "k + n \<le> maxc \<Longrightarrow>
   merge_pieces maxc ov (replicate k a) (replicate n [a]) = [replicate (k + n) a]"
proof (induction n arbitrary: k)
  case 0
  then show ?case by simp
next
  case (Suc n)
  have "replicate k a @ [a] = replicate (Suc k) a" by (simp add: replicate_append_same)
  with Suc.prems Suc.IH[of "Suc k"] show ?case by simp
qed

lemma merge_emit:
  assumes "k \<le> maxc" "1 \<le> maxc" "n = (maxc - k) + 1 + r"
  shows "merge_pieces maxc ov (replicate k a) (replicate n [a]) =
     replicate maxc a #
     merge_pieces maxc ov (replicate (min ov (maxc - 1) + 1) a) (replicate r [a])"
  using assms
proof (induction "maxc - k" arbitrary: k n)
  case 0
  then have k: "k = maxc" and n: "n = Suc r" by simp_all
  have "overlap_tail (min ov (maxc - 1)) (replicate maxc a) = replicate (min ov (maxc - 1)) a"
    by (simp add: overlap_tail_def) 
  then show ?case using 0(3) by (simp add: k n replicate_append_same)
next
  case (Suc d)
  then have lt: "k < maxc" by simp
  then obtain m where n: "n = Suc m" and m: "m = (maxc - Suc k) + 1 + r"
    using Suc.prems(3) by (cases n) auto
  have "replicate k a @ [a] = replicate (Suc k) a" by (simp add: replicate_append_same)
  moreover have "merge_pieces maxc ov (replicate (Suc k) a) (replicate m [a]) =
     replicate maxc a #
     merge_pieces maxc ov (replicate (min ov (maxc - 1) + 1) a) (replicate r [a])"
    using Suc.hyps(2) lt Suc.prems(2) m by (intro Suc.hyps(1)) auto
  ultimately show ?case using lt by (simp add: n)
qed

lemma segment_unbroken:
  "segment (replicate 120000 (CHR ''a'')) CHUNK_SIZE CHUNK_OVERLAP =
     [replicate 40000 (CHR ''a''), replicate 40000 (CHR ''a''), replicate 40000 (CHR ''a''),
      replicate 300 (CHR ''a'')]"
proof -
  let ?a = "CHR ''a''"
  have c: "choose_pieces 40000 separators (replicate 120000 ?a) = replicate 120000 ''a''"
    by (rule choose_pieces_unbroken) simp_all
  have s: "replicate 120000 ''a'' = replicate 1 ?a # replicate 119999 ''a''"
  proof -
    have "replicate (Suc 119999) ''a'' = ''a'' # replicate 119999 ''a''"
      by (rule replicate_Suc)
    moreover have "Suc 119999 = 120000" by simp
    moreover have "replicate 1 ?a = ''a''" by simp
    ultimately show ?thesis by (simp only:)
  qed
  have 1: "merge_pieces 40000 100 (replicate 1 ?a) (replicate 119999 [?a]) =
     replicate 40000 ?a # merge_pieces 40000 100 (replicate 101 ?a) (replicate 79999 [?a])"
    using merge_emit[of 1 40000 119999 79999 100 ?a] by simp
  have 2: "merge_pieces 40000 100 (replicate 101 ?a) (replicate 79999 [?a]) =
     replicate 40000 ?a # merge_pieces 40000 100 (replicate 101 ?a) (replicate 40099 [?a])"
    using merge_emit[of 101 40000 79999 40099 100 ?a] by simp
  have 3: "merge_pieces 40000 100 (replicate 101 ?a) (replicate 40099 [?a]) =
     replicate 40000 ?a # merge_pieces 40000 100 (replicate 101 ?a) (replicate 199 [?a])"
    using merge_emit[of 101 40000 40099 199 100 ?a] by simp
  have 4: "merge_pieces 40000 100 (replicate 101 ?a) (replicate 199 [?a]) = [replicate 300 ?a]"
    using merge_fill[of 101 199 40000 100 ?a] by simp
  show ?thesis
    unfolding segment_def CHUNK_SIZE_def CHUNK_OVERLAP_def c s
    by (simp only: list.case 1 2 3 4)
qed

section \<open>A run in which every request succeeds at once\<close>

lemma first_attempt_task:
  assumes "chunk_post E i 0 (chunk_payload chunk) = Inr (ok_body (PStr s))"
    and "\<not> prefix ''Error'' s"
  shows "chunk_task E i chunk = (PStr s, \<lparr>calls = 1, sleeps = []\<rparr>)"
proof -
  let ?w = "\<lambda>n. summarize_chunk_wrapper (chunk_post E i n) chunk (int i + 1)"
  have "?w 0 = Inr (PStr s)" using assms(1) by (rule wrapper_passes_content)
  moreover have "\<not> is_error_str (PStr s)" using assms(2) by simp
  ultimately show ?thesis
    unfolding chunk_task_def
    using retry_success_trace[of 0 MAX_RETRIES ?w "PStr s" "int i + 1"]
    by (simp add: MAX_RETRIES_def)
qed

lemma final_first_success:
  assumes "post 0 (final_payload c) = Inr (ok_body (PStr content))"
  shows "generate_final_summary post c =
     (Inr (PStr content), \<lparr>posts = [final_payload c], waits = []\<rparr>)"
  using assms
  by (simp add: generate_final_summary_def final_loop.simps[of post _ 0] MAX_RETRIES_def
      final_content_def ok_body_def)

lemma run_first_attempt:
  assumes c: "{0..<length (split_text E doc)} \<subseteq> set (completion E)"
    and ne: "split_text E doc \<noteq> []"
    and p: "\<forall>i<length (split_text E doc).
          \<exists>s. chunk_post E i 0 (chunk_payload (split_text E doc ! i)) = Inr (ok_body (PStr s)) \<and>
              \<not> prefix ''Error'' s"
    and f: "\<forall>pl. final_post E 0 pl = Inr (ok_body (PStr content))"
  shows "\<exists>r. summarize_text_parallel E doc = Some r \<and> returned r = Inr (PStr content) \<and>
     chunk_traces r = replicate (length (split_text E doc)) \<lparr>calls = 1, sleeps = []\<rparr> \<and>
     length (posts (final_stage r)) = 1 \<and> waits (final_stage r) = []"
proof -
  let ?chunks = "split_text E doc"
  let ?outs = "map (\<lambda>i. fst (chunk_task E i (?chunks ! i))) [0..<length ?chunks]"
  have d: "dispatch E ?chunks = Some ?outs" by (rule dispatch_complete[OF c])
  have t: "\<exists>s. chunk_task E i (?chunks ! i) = (PStr s, \<lparr>calls = 1, sleeps = []\<rparr>) \<and>
      \<not> prefix ''Error'' s" if "i < length ?chunks" for i
    using p that first_attempt_task[of E i "?chunks ! i"] by blast
  from ne have pos: "0 < length ?chunks" by simp
  from t[OF pos] obtain s0 where
    s0: "chunk_task E 0 (?chunks ! 0) = (PStr s0, \<lparr>calls = 1, sleeps = []\<rparr>)"
      "\<not> prefix ''Error'' s0"
    by blast
  have o0: "?outs ! 0 = PStr s0" using pos s0(1) by simp
  have "?outs ! 0 \<in> set ?outs" using pos by (intro nth_mem) simp
  with o0 s0(2) have "\<exists>v\<in>set ?outs. \<not> is_error_str v" by (intro bexI[of _ "?outs ! 0"]) simp_all
  then have "filter (\<lambda>s. \<not> is_error_str s) ?outs \<noteq> []"
    by (simp only: filter_empty_conv) blast
  then have a: "aggregate E ?outs =
      generate_final_summary (final_post E) (combined_chunk_summaries (py_str E) ?outs)"
    unfolding aggregate_def Let_def by (simp only: if_False)
  have f0: "final_post E 0 (final_payload (combined_chunk_summaries (py_str E) ?outs)) =
      Inr (ok_body (PStr content))"
    using f by blast
  have g: "generate_final_summary (final_post E) (combined_chunk_summaries (py_str E) ?outs) =
     (Inr (PStr content),
      \<lparr>posts = [final_payload (combined_chunk_summaries (py_str E) ?outs)], waits = []\<rparr>)"
    using f0 by (rule final_first_success)
  have tr: "map (\<lambda>(i, chunk). snd (chunk_task E i chunk)) (enumerate 0 ?chunks) =
     replicate (length ?chunks) \<lparr>calls = 1, sleeps = []\<rparr>"
  proof (rule nth_equalityI)
    show "length (map (\<lambda>(i, chunk). snd (chunk_task E i chunk)) (enumerate 0 ?chunks)) =
      length (replicate (length ?chunks) \<lparr>calls = 1, sleeps = []\<rparr>)" by simp
  next
    fix i assume "i < length (map (\<lambda>(i, chunk). snd (chunk_task E i chunk)) (enumerate 0 ?chunks))"
    then have i: "i < length ?chunks" by simp
    from t[OF i] i
    show "map (\<lambda>(i, chunk). snd (chunk_task E i chunk)) (enumerate 0 ?chunks) ! i =
      replicate (length ?chunks) \<lparr>calls = 1, sleeps = []\<rparr> ! i"
      by (auto simp: nth_enumerate_eq)
  qed
  have ag: "aggregate E ?outs =
     (Inr (PStr content),
      \<lparr>posts = [final_payload (combined_chunk_summaries (py_str E) ?outs)], waits = []\<rparr>)"
    using a g by (rule trans)
  have "summarize_text_parallel E doc =
     Some \<lparr>returned = Inr (PStr content),
           chunk_traces = replicate (length ?chunks) \<lparr>calls = 1, sleeps = []\<rparr>,
           final_stage =
             \<lparr>posts = [final_payload (combined_chunk_summaries (py_str E) ?outs)],
              waits = []\<rparr>\<rparr>"
    unfolding summarize_text_parallel_def Let_def d tr by (simp add: ag)
  then show ?thesis by simp
qed

text \<open>
  C9, as amended. The number of chunks of a text of 120,000 characters depends on the text:
  with a budget of 40,000 and an overlap of 100, a text of 120,000 characters without any
  separator is cut into 4 chunks, since three chunks that overlap by 100 characters hold at
  most 119,800. For a text cut into any number \<open>N > 0\<close> of chunks, 3 among them: when the
  first call of every chunk succeeds with a summary that does not begin with Error and the
  first final request succeeds, the entry point returns the content of the final response
  unchanged, after one call for each chunk and one final request.
\<close>

theorem first_attempt_run_returns_final_content:
  "length (segment (replicate 120000 (CHR ''a'')) CHUNK_SIZE CHUNK_OVERLAP) = 4 \<and>
   ({0..<length (split_text E doc)} \<subseteq> set (completion E) \<and> split_text E doc \<noteq> [] \<and>
    (\<forall>i<length (split_text E doc).
       \<exists>s. chunk_post E i 0 (chunk_payload (split_text E doc ! i)) = Inr (ok_body (PStr s)) \<and>
           \<not> prefix ''Error'' s) \<and>
    (\<forall>pl. final_post E 0 pl = Inr (ok_body (PStr content))) \<longrightarrow>
    (\<exists>r. summarize_text_parallel E doc = Some r \<and> returned r = Inr (PStr content) \<and>
       chunk_traces r = replicate (length (split_text E doc)) \<lparr>calls = 1, sleeps = []\<rparr> \<and>
       length (posts (final_stage r)) = 1 \<and> waits (final_stage r) = []))"
  using run_first_attempt[of E doc content] by (simp add: segment_unbroken)

lemma steady_split: "split_text steady_env ''abcdefghij'' = [''abcd'', ''defg'', ''ghij'']"
proof -
  have "segment ''abcdefghij'' 4 1 = [''abcd'', ''defg'', ''ghij'']" by code_simp
  then show ?thesis by (simp add: steady_env_def small_split_def)
qed

theorem first_attempt_run_returns_final_content_witness:
  "length (split_text steady_env ''abcdefghij'') = 3 \<and>
   {0..<length (split_text steady_env ''abcdefghij'')} \<subseteq> set (completion steady_env) \<and>
   \<not> prefix ''Error'' ''summary'' \<and>
   map_option returned (summarize_text_parallel steady_env ''abcdefghij'') =
     Some (Inr (PStr ''final document'')) \<and>
   map_option chunk_traces (summarize_text_parallel steady_env ''abcdefghij'') =
     Some [\<lparr>calls = 1, sleeps = []\<rparr>, \<lparr>calls = 1, sleeps = []\<rparr>, \<lparr>calls = 1, sleeps = []\<rparr>]"
proof -
  have h1: "{0..<length (split_text steady_env ''abcdefghij'')} \<subseteq> set (completion steady_env)"
    unfolding steady_split by (auto simp: steady_env_def less_Suc_eq)
  have h2: "split_text steady_env ''abcdefghij'' \<noteq> []" by (simp add: steady_split)
  have h3: "\<forall>i<length (split_text steady_env ''abcdefghij'').
       \<exists>s. chunk_post steady_env i 0 (chunk_payload (split_text steady_env ''abcdefghij'' ! i)) =
             Inr (ok_body (PStr s)) \<and> \<not> prefix ''Error'' s"
    by (intro allI impI exI[of _ "''summary''"]) (simp add: steady_env_def steady_chunk_post_def)
  have h4: "\<forall>pl. final_post steady_env 0 pl = Inr (ok_body (PStr ''final document''))"
    by (simp add: steady_env_def sample_final_post_def)
  from first_attempt_run_returns_final_content[of steady_env "''abcdefghij''" "''final document''"]
    h1 h2 h3 h4
  obtain r where "summarize_text_parallel steady_env ''abcdefghij'' = Some r"
    "returned r = Inr (PStr ''final document'')"
    "chunk_traces r = replicate (length (split_text steady_env ''abcdefghij''))
       \<lparr>calls = 1, sleeps = []\<rparr>"
    by blast
  then show ?thesis using h1 by (simp add: steady_split numeral_3_eq_3)
qed

theorem three_chunks_counterexample:
  "length (replicate 120000 (CHR ''a'')) = 120000 \<and>
   segment (replicate 120000 (CHR ''a'')) CHUNK_SIZE CHUNK_OVERLAP =
     [replicate 40000 (CHR ''a''), replicate 40000 (CHR ''a''), replicate 40000 (CHR ''a''),
      replicate 300 (CHR ''a'')] \<and>
   length (segment (replicate 120000 (CHR ''a'')) CHUNK_SIZE CHUNK_OVERLAP) \<noteq> 3"
  by (simp add: segment_unbroken)

end
